theory Spec2Isabelle
  imports Complex_Main "HOL-Library.Char_ord" "HOL-Library.List_Lexorder"
begin

section \<open>Python values carried by JSON bodies and by the session\<close>

text \<open>
  The handlers read request fields with \<^verbatim>\<open>data.get(key)\<close> and the session with
  \<^verbatim>\<open>session.get(key)\<close>.  A field is a scalar JSON value: absent or null (Python
  \<^verbatim>\<open>None\<close>), a boolean, an integer or a string.  Floats, arrays and nested
  objects are left out of the value type.  A string is a list of characters; every
  character the code looks at is ASCII.
\<close>

datatype pyval = PNone | PBool bool | PInt int | PStr string

text \<open>Python's \<^verbatim>\<open>==\<close> on these values; \<^verbatim>\<open>True == 1\<close> and \<^verbatim>\<open>False == 0\<close> hold in Python.\<close>

fun py_eq :: "pyval \<Rightarrow> pyval \<Rightarrow> bool" where
  "py_eq PNone PNone = True"
| "py_eq (PStr a) (PStr b) = (a = b)"
| "py_eq (PBool a) (PBool b) = (a = b)"
| "py_eq (PInt a) (PInt b) = (a = b)"
| "py_eq (PBool a) (PInt b) = ((if a then 1 else 0) = b)"
| "py_eq (PInt a) (PBool b) = (a = (if b then 1 else 0))"
| "py_eq _ _ = False"

text \<open>Truthiness, as used by \<^verbatim>\<open>if not x\<close>.\<close>

fun py_truthy :: "pyval \<Rightarrow> bool" where
  "py_truthy PNone = False"
| "py_truthy (PBool b) = b"
| "py_truthy (PInt n) = (n \<noteq> 0)"
| "py_truthy (PStr s) = (s \<noteq> [])"

text \<open>\<^verbatim>\<open>dict.get(key)\<close>: the value, or \<^verbatim>\<open>None\<close> when the key is missing.\<close>

type_synonym pydict = "string \<rightharpoonup> pyval"

definition dict_get :: "pydict \<Rightarrow> string \<Rightarrow> pyval" where
  "dict_get d k = (case d k of None \<Rightarrow> PNone | Some v \<Rightarrow> v)"

text \<open>\<^verbatim>\<open>str(x)\<close>: decimal digits for an integer, the capitalised name for a boolean.\<close>

definition digit_char :: "nat \<Rightarrow> char" where
  "digit_char d = char_of (48 + d)"

fun str_nat :: "nat \<Rightarrow> string" where
  "str_nat n = (if n < 10 then [digit_char n] else str_nat (n div 10) @ [digit_char (n mod 10)])"

declare str_nat.simps [simp del]

fun py_str :: "pyval \<Rightarrow> string" where
  "py_str PNone = ''None''"
| "py_str (PBool b) = (if b then ''True'' else ''False'')"
| "py_str (PInt n) = (if n < 0 then CHR ''-'' # str_nat (nat (- n)) else str_nat (nat n))"
| "py_str (PStr s) = s"

section \<open>Sanitisation (\<^verbatim>\<open>sanitize_input\<close>)\<close>

text \<open>
  \<^verbatim>\<open>re.sub('<.*?>', '', s)\<close>.  The pattern is scanned from the left.  At a \<^verbatim>\<open><\<close> the
  lazy \<^verbatim>\<open>.*?\<close> runs to the first \<^verbatim>\<open>>\<close>; the dot does not match a newline, so a
  newline met before that \<^verbatim>\<open>>\<close> makes the attempt at this position fail.
  \<open>tag_end cs\<close> is the text after the closing \<^verbatim>\<open>>\<close> when the attempt succeeds on
  the text \<open>cs\<close> that follows the \<^verbatim>\<open><\<close>.
\<close>

fun tag_end :: "string \<Rightarrow> string option" where
  "tag_end [] = None"
| "tag_end (d # ds) =
     (if d = CHR ''>'' then Some ds
      else if d = CHR 0x0A then None
      else tag_end ds)"

lemma tag_end_shorter: "tag_end cs = Some r \<Longrightarrow> length r < length cs"
  by (induction cs) (auto split: if_splits)

function re_sub_tags :: "string \<Rightarrow> string" where
  "re_sub_tags [] = []"
| "re_sub_tags (c # cs) =
     (if c = CHR ''<'' then
        (case tag_end cs of
           Some r \<Rightarrow> re_sub_tags r
         | None \<Rightarrow> c # re_sub_tags cs)
      else c # re_sub_tags cs)"
  by pat_completeness auto
termination
  by (relation "measure length") (auto dest: tag_end_shorter)

text \<open>\<^verbatim>\<open>s.replace(old, new)\<close> for a one-character \<^verbatim>\<open>old\<close>.\<close>

definition replace :: "char \<Rightarrow> string \<Rightarrow> string \<Rightarrow> string" where
  "replace old new s = concat (map (\<lambda>c. if c = old then new else [c]) s)"

definition sanitize_input :: "pyval \<Rightarrow> pyval" where
  "sanitize_input text =
     (if text = PNone then PNone
      else
        let clean = re_sub_tags (py_str text);
            clean = replace (CHR ''&'') ''&amp;'' clean;
            clean = replace (CHR ''<'') ''&lt;'' clean;
            clean = replace (CHR ''>'') ''&gt;'' clean;
            clean = replace (CHR 0x22) ''&quot;'' clean;
            clean = replace (CHR 0x27) ''&#x27;'' clean
        in PStr clean)"

text \<open>
  What the five replacements amount to, character by character, and the properties of the
  result that the proofs below speak about.
\<close>

definition special :: "char \<Rightarrow> bool" where
  "special c =
     (c = CHR ''&'' \<or> c = CHR ''<'' \<or> c = CHR ''>'' \<or> c = CHR 0x22 \<or> c = CHR 0x27)"

definition esc :: "char \<Rightarrow> string" where
  "esc c = (if c = CHR ''&'' then ''&amp;''
            else if c = CHR ''<'' then ''&lt;''
            else if c = CHR ''>'' then ''&gt;''
            else if c = CHR 0x22 then ''&quot;''
            else if c = CHR 0x27 then ''&#x27;''
            else [c])"

definition escape_all :: "string \<Rightarrow> string" where
  "escape_all s =
     replace (CHR 0x27) ''&#x27;''
       (replace (CHR 0x22) ''&quot;''
         (replace (CHR ''>'') ''&gt;''
           (replace (CHR ''<'') ''&lt;''
             (replace (CHR ''&'') ''&amp;'' s))))"

text \<open>\<open>has_tag s\<close>: the pattern \<^verbatim>\<open><.*?>\<close> matches somewhere in \<open>s\<close>.\<close>

fun has_tag :: "string \<Rightarrow> bool" where
  "has_tag [] = False"
| "has_tag (c # cs) = ((c = CHR ''<'' \<and> tag_end cs \<noteq> None) \<or> has_tag cs)"

definition entities :: "string list" where
  "entities = [''amp;'', ''lt;'', ''gt;'', ''quot;'', ''#x27;'']"

text \<open>Every ampersand opens one of the five entities the function writes.\<close>

fun entity_escaped :: "string \<Rightarrow> bool" where
  "entity_escaped [] = True"
| "entity_escaped (c # cs) =
     ((if c = CHR ''&'' then (\<exists>e \<in> set entities. take (length e) cs = e) else True)
      \<and> entity_escaped cs)"

text \<open>
  Safe to place in HTML text or in a quoted attribute: no markup delimiter, no quote, and
  no ampersand other than the start of an entity.
\<close>

definition html_safe :: "string \<Rightarrow> bool" where
  "html_safe s =
     (CHR ''<'' \<notin> set s \<and> CHR ''>'' \<notin> set s \<and> CHR 0x22 \<notin> set s \<and> CHR 0x27 \<notin> set s
      \<and> entity_escaped s)"

section \<open>Email validation (\<^verbatim>\<open>validate_email\<close>)\<close>

text \<open>
  Regular expressions with character classes, and \<^verbatim>\<open>re.match\<close> as a matcher by
  derivatives: \<^verbatim>\<open>re.match\<close> succeeds when the pattern matches some prefix of the
  subject, starting at its first character.
\<close>

datatype rexp =
    Zero
  | One
  | Cls "char \<Rightarrow> bool"
  | Seq rexp rexp
  | Alt rexp rexp
  | Star rexp

definition Plus :: "rexp \<Rightarrow> rexp" where
  "Plus r = Seq r (Star r)"

definition AtLeast2 :: "rexp \<Rightarrow> rexp" where
  "AtLeast2 r = Seq r (Seq r (Star r))"

fun nullable :: "rexp \<Rightarrow> bool" where
  "nullable Zero = False"
| "nullable One = True"
| "nullable (Cls P) = False"
| "nullable (Seq r s) = (nullable r \<and> nullable s)"
| "nullable (Alt r s) = (nullable r \<or> nullable s)"
| "nullable (Star r) = True"

fun deriv :: "char \<Rightarrow> rexp \<Rightarrow> rexp" where
  "deriv c Zero = Zero"
| "deriv c One = Zero"
| "deriv c (Cls P) = (if P c then One else Zero)"
| "deriv c (Seq r s) =
     (if nullable r then Alt (Seq (deriv c r) s) (deriv c s) else Seq (deriv c r) s)"
| "deriv c (Alt r s) = Alt (deriv c r) (deriv c s)"
| "deriv c (Star r) = Seq (deriv c r) (Star r)"

fun re_match :: "rexp \<Rightarrow> string \<Rightarrow> bool" where
  "re_match r [] = nullable r"
| "re_match r (c # cs) = (nullable r \<or> re_match (deriv c r) cs)"

definition is_alpha :: "char \<Rightarrow> bool" where
  "is_alpha c = ((CHR ''a'' \<le> c \<and> c \<le> CHR ''z'') \<or> (CHR ''A'' \<le> c \<and> c \<le> CHR ''Z''))"

definition is_digit :: "char \<Rightarrow> bool" where
  "is_digit c = (CHR ''0'' \<le> c \<and> c \<le> CHR ''9'')"

text \<open>\<^verbatim>\<open>[a-zA-Z0-9._%+-]\<close> and \<^verbatim>\<open>[a-zA-Z0-9.-]\<close>.\<close>

definition local_char :: "char \<Rightarrow> bool" where
  "local_char c = (is_alpha c \<or> is_digit c \<or> c \<in> set ''._%+-'')"

definition domain_char :: "char \<Rightarrow> bool" where
  "domain_char c = (is_alpha c \<or> is_digit c \<or> c \<in> set ''.-'')"

definition is_at :: "char \<Rightarrow> bool" where
  "is_at c = (c = CHR ''@'')"

definition is_dot :: "char \<Rightarrow> bool" where
  "is_dot c = (c = CHR ''.'')"

text \<open>\<^verbatim>\<open>^[a-zA-Z0-9._%+-]+@[a-zA-Z0-9.-]+\.[a-zA-Z]{2,}\<close>\<close>

definition pattern :: rexp where
  "pattern =
     Seq (Plus (Cls local_char))
       (Seq (Cls is_at)
         (Seq (Plus (Cls domain_char))
           (Seq (Cls is_dot) (AtLeast2 (Cls is_alpha)))))"

definition validate_email :: "string \<Rightarrow> bool" where
  "validate_email email = re_match pattern email"

text \<open>The words a regular expression denotes.\<close>

definition conc :: "string set \<Rightarrow> string set \<Rightarrow> string set" where
  "conc A B = {u @ v | u v. u \<in> A \<and> v \<in> B}"

inductive_set star :: "string set \<Rightarrow> string set" for A :: "string set" where
  star_empty: "[] \<in> star A"
| star_step: "u \<in> A \<Longrightarrow> v \<in> star A \<Longrightarrow> u @ v \<in> star A"

fun lang :: "rexp \<Rightarrow> string set" where
  "lang Zero = {}"
| "lang One = {[]}"
| "lang (Cls P) = {[c] | c. P c}"
| "lang (Seq r s) = conc (lang r) (lang s)"
| "lang (Alt r s) = lang r \<union> lang s"
| "lang (Star r) = star (lang r)"

text \<open>Some dot of \<open>s\<close> is followed directly by two letters.\<close>

fun has_tld :: "string \<Rightarrow> bool" where
  "has_tld (c # a # b # r) = ((c = CHR ''.'' \<and> is_alpha a \<and> is_alpha b) \<or> has_tld (a # b # r))"
| "has_tld _ = False"

section \<open>Configuration and responses\<close>

text \<open>
  The configuration values the claims depend on (\<^verbatim>\<open>Config\<close>).  The admin
  credentials are strings: \<^verbatim>\<open>os.environ.get(...) or 'admin'\<close> never yields
  \<^verbatim>\<open>None\<close>.
\<close>

record config =
  ADMIN_USERNAME :: string
  ADMIN_PASSWORD :: string
  RATE_LIMIT_ENABLED :: bool
  RATE_LIMIT_REQUESTS :: int
  RATE_LIMIT_PERIOD :: int

text \<open>
  Values held in a column: \<^verbatim>\<open>NULL\<close>, an integer, a REAL (a finite value or an
  infinity), or text.  No route binds a BLOB, so BLOB values are left out.
\<close>

datatype sqlreal = NegInf | Finite rat | PosInf

datatype sqlval = SNull | SInt int | SReal sqlreal | SText string

record event =
  event_id :: int
  title :: string
  description :: "string option"
  date :: sqlval
  time :: "string option"
  location :: "string option"
  image_url :: "string option"
  created_at :: string
  updated_at :: string

text \<open>A response is what \<^verbatim>\<open>jsonify\<close> receives, with the status code.\<close>

datatype payload =
    Message string
  | Error string
  | Event_record event
  | Event_list "event list"

type_synonym response = "payload \<times> nat"

type_synonym session = pydict

text \<open>Exceptions that no \<^verbatim>\<open>try\<close> of the application catches.\<close>

datatype exn = IntegrityError | OverflowError

text \<open>What a request ends in: a response of the view, or an exception that escapes it.\<close>

datatype outcome = Response response | Unhandled exn

text \<open>
  A value of a request body, where the handler does more with it than compare it: a
  scalar, a float, or an array or object.  The handlers see a float, an array or an
  object only through \<^verbatim>\<open>str\<close>, truthiness and the database driver, so each is
  given by the text \<^verbatim>\<open>str\<close> makes of it.
\<close>

datatype jsonval = JScalar pyval | JFloat string | JComposite string

type_synonym jsonbody = "string \<rightharpoonup> jsonval"

definition json_get :: "jsonbody \<Rightarrow> string \<Rightarrow> jsonval" where
  "json_get d k = (case d k of None \<Rightarrow> JScalar PNone | Some v \<Rightarrow> v)"

text \<open>
  Truthiness: of the floats only \<^verbatim>\<open>0.0\<close> and \<^verbatim>\<open>-0.0\<close> are false, of the arrays
  and objects only the empty ones.
\<close>

fun json_truthy :: "jsonval \<Rightarrow> bool" where
  "json_truthy (JScalar v) = py_truthy v"
| "json_truthy (JFloat s) = (s \<noteq> ''0.0'' \<and> s \<noteq> ''-0.0'')"
| "json_truthy (JComposite s) = (s \<noteq> ''[]'' \<and> s \<noteq> ''{}'')"

text \<open>\<^verbatim>\<open>sanitize_input\<close> on a body value: it looks at \<^verbatim>\<open>str(text)\<close> only.\<close>

fun sanitize_value :: "jsonval \<Rightarrow> pyval" where
  "sanitize_value (JScalar v) = sanitize_input v"
| "sanitize_value (JFloat s) = sanitize_input (PStr s)"
| "sanitize_value (JComposite s) = sanitize_input (PStr s)"

text \<open>The integers SQLite stores, and the only ones the driver binds.\<close>

definition int64 :: "int \<Rightarrow> bool" where
  "int64 n = (- (2 ^ 63) \<le> n \<and> n < 2 ^ 63)"

section \<open>Rate limiter (\<^verbatim>\<open>rate_limit\<close>)\<close>

text \<open>
  A row of \<^verbatim>\<open>rate_limits\<close>.  A timestamp is a \<^verbatim>\<open>datetime\<close>, counted here in
  microseconds since 0001-01-01 00:00:00, the smallest \<^verbatim>\<open>datetime\<close>; the ISO text
  SQLite stores and compares orders the same way.  \<open>datetime_max\<close> is
  9999-12-31 23:59:59.999999.
\<close>

record rate_row =
  ip_address :: string
  endpoint :: string
  timestamp :: int

definition datetime_max :: int where
  "datetime_max = 315537897599999999"

text \<open>
  \<^verbatim>\<open>timedelta(seconds=n)\<close>, in microseconds.  It raises \<^verbatim>\<open>OverflowError\<close>
  (\<open>None\<close>) when the whole days of \<open>n\<close> seconds number more than 999999999 in
  magnitude.
\<close>

definition timedelta_seconds :: "int \<Rightarrow> int option" where
  "timedelta_seconds n =
     (if - 999999999 \<le> n div 86400 \<and> n div 86400 \<le> 999999999 then Some (1000000 * n)
      else None)"

text \<open>
  \<^verbatim>\<open>current_time - timedelta(seconds=RATE_LIMIT_PERIOD)\<close>: \<^verbatim>\<open>OverflowError\<close> also
  when the difference is not a \<^verbatim>\<open>datetime\<close>.
\<close>

definition time_window :: "config \<Rightarrow> int \<Rightarrow> int option" where
  "time_window cfg current_time =
     (case timedelta_seconds (RATE_LIMIT_PERIOD cfg) of
        None \<Rightarrow> None
      | Some delta \<Rightarrow>
          if 0 \<le> current_time - delta \<and> current_time - delta \<le> datetime_max
          then Some (current_time - delta) else None)"

text \<open>
  What the decorator does with the request: it calls the wrapped handler, answers by
  itself, or lets an exception escape (the decorator has no \<^verbatim>\<open>try\<close>).
\<close>

datatype gate = Call_handler | Respond response | Raise exn

definition clean_old :: "int \<Rightarrow> rate_row list \<Rightarrow> rate_row list" where
  "clean_old cutoff tbl = filter (\<lambda>r. \<not> timestamp r < cutoff) tbl"

text \<open>
  The address is \<^verbatim>\<open>request.remote_addr\<close>, which is \<^verbatim>\<open>None\<close> when the server
  passes no address; \<^verbatim>\<open>ip_address = NULL\<close> holds of no row.
\<close>

definition count_recent :: "string option \<Rightarrow> string \<Rightarrow> int \<Rightarrow> rate_row list \<Rightarrow> int" where
  "count_recent remote_addr ep cutoff tbl =
     int (length (filter (\<lambda>r. Some (ip_address r) = remote_addr \<and> endpoint r = ep
                               \<and> timestamp r > cutoff) tbl))"

text \<open>
  \<open>rate_limit cfg endpoint_name remote_addr current_time tbl\<close> returns the decision and
  the table as committed.  The \<^verbatim>\<open>DELETE\<close> and the \<^verbatim>\<open>INSERT\<close> run in one
  transaction, committed only after the insert: the 429 branch returns before
  \<^verbatim>\<open>conn.commit()\<close>, and the connection is closed with the deletion uncommitted.
  \<^verbatim>\<open>ip_address\<close> is \<^verbatim>\<open>NOT NULL\<close> and the table's primary key is
  (ip_address, endpoint, timestamp), so inserting without an address, or a row that is
  already there, raises \<^verbatim>\<open>IntegrityError\<close>.
\<close>

definition rate_limit ::
  "config \<Rightarrow> string \<Rightarrow> string option \<Rightarrow> int \<Rightarrow> rate_row list \<Rightarrow> gate \<times> rate_row list" where
  "rate_limit cfg endpoint_name remote_addr current_time tbl =
     (if \<not> RATE_LIMIT_ENABLED cfg then (Call_handler, tbl)
      else
        (case time_window cfg current_time of
           None \<Rightarrow> (Raise OverflowError, tbl)
         | Some cutoff \<Rightarrow>
             let swept = clean_old cutoff tbl;
                 count = count_recent remote_addr endpoint_name cutoff swept
             in if count \<ge> RATE_LIMIT_REQUESTS cfg then
                  (Respond (Error ''Rate limit exceeded. Please try again later.'', 429), tbl)
                else
                  (case remote_addr of
                     None \<Rightarrow> (Raise IntegrityError, tbl)
                   | Some ip \<Rightarrow>
                       let row = \<lparr>ip_address = ip, endpoint = endpoint_name,
                                  timestamp = current_time\<rparr>
                       in if row \<in> set swept then (Raise IntegrityError, tbl)
                          else (Call_handler, swept @ [row]))))"

section \<open>Admin login (\<^verbatim>\<open>admin_login\<close>)\<close>

text \<open>
  \<^verbatim>\<open>request.json\<close> is \<open>Some data\<close> when the body is a JSON object; anything else
  makes \<^verbatim>\<open>request.json\<close> or \<^verbatim>\<open>data.get\<close> raise, and the handler's
  \<^verbatim>\<open>except Exception\<close> answers 500.

  The blueprint (backend/routes.py) reads the expected credentials from the session.
\<close>

definition admin_login :: "session \<Rightarrow> pydict option \<Rightarrow> response \<times> session" where
  "admin_login session json =
     (case json of
        None \<Rightarrow> ((Error ''Login failed'', 500), session)
      | Some data \<Rightarrow>
          let username = dict_get data ''username'';
              password = dict_get data ''password''
          in if py_eq username (dict_get session ''ADMIN_USERNAME'')
                \<and> py_eq password (dict_get session ''ADMIN_PASSWORD'')
             then ((Message ''Login successful'', 200), session(''is_admin'' \<mapsto> PBool True))
             else ((Error ''Invalid credentials'', 401), session))"

text \<open>The single-file application (church-backend-complete.py) reads them from the configuration.\<close>

definition admin_login_complete :: "config \<Rightarrow> session \<Rightarrow> pydict option \<Rightarrow> response \<times> session" where
  "admin_login_complete cfg session json =
     (case json of
        None \<Rightarrow> ((Error ''Login failed'', 500), session)
      | Some data \<Rightarrow>
          let username = dict_get data ''username'';
              password = dict_get data ''password''
          in if py_eq username (PStr (ADMIN_USERNAME cfg))
                \<and> py_eq password (PStr (ADMIN_PASSWORD cfg))
             then ((Message ''Login successful'', 200), session(''is_admin'' \<mapsto> PBool True))
             else ((Error ''Invalid credentials'', 401), session))"

section \<open>Events (\<^verbatim>\<open>handle_events\<close>, \<^verbatim>\<open>handle_event\<close>)\<close>

text \<open>
  SQLite's comparison of column values: \<^verbatim>\<open>NULL\<close> sorts first, then the numbers
  (integers and reals together, by value), then text byte by byte.
\<close>

fun real_le :: "sqlreal \<Rightarrow> sqlreal \<Rightarrow> bool" where
  "real_le NegInf _ = True"
| "real_le (Finite a) NegInf = False"
| "real_le (Finite a) (Finite b) = (a \<le> b)"
| "real_le (Finite a) PosInf = True"
| "real_le PosInf PosInf = True"
| "real_le PosInf _ = False"

fun storage_class :: "sqlval \<Rightarrow> nat" where
  "storage_class SNull = 0"
| "storage_class (SInt a) = 1"
| "storage_class (SReal x) = 1"
| "storage_class (SText s) = 2"

fun numeric_value :: "sqlval \<Rightarrow> sqlreal" where
  "numeric_value (SInt a) = Finite (of_int a)"
| "numeric_value (SReal x) = x"
| "numeric_value _ = Finite 0"

fun text_value :: "sqlval \<Rightarrow> string" where
  "text_value (SText s) = s"
| "text_value _ = []"

definition sql_le :: "sqlval \<Rightarrow> sqlval \<Rightarrow> bool" where
  "sql_le a b =
     (if storage_class a \<noteq> storage_class b then storage_class a < storage_class b
      else if storage_class a = 1 then real_le (numeric_value a) (numeric_value b)
      else text_value a \<le> text_value b)"

text \<open>
  \<^verbatim>\<open>WHERE date >= date("now")\<close>, the right-hand side being the text \<open>today\<close>.  A
  comparison with \<^verbatim>\<open>NULL\<close> is not true.
\<close>

fun where_upcoming :: "string \<Rightarrow> sqlval \<Rightarrow> bool" where
  "where_upcoming today SNull = False"
| "where_upcoming today v = sql_le (SText today) v"

text \<open>The \<^verbatim>\<open>time\<close> column has TEXT affinity: it holds text or \<^verbatim>\<open>NULL\<close>.\<close>

fun text_le :: "string option \<Rightarrow> string option \<Rightarrow> bool" where
  "text_le None _ = True"
| "text_le (Some a) None = False"
| "text_le (Some a) (Some b) = (a \<le> b)"

text \<open>\<^verbatim>\<open>ORDER BY date, time\<close>: by date, and by time among dates that compare equal.\<close>

definition order_by_date_time :: "event \<Rightarrow> event \<Rightarrow> bool" where
  "order_by_date_time a b =
     (if sql_le (date a) (date b) \<and> sql_le (date b) (date a) then text_le (time a) (time b)
      else sql_le (date a) (date b))"

fun insert_by :: "('a \<Rightarrow> 'a \<Rightarrow> bool) \<Rightarrow> 'a \<Rightarrow> 'a list \<Rightarrow> 'a list" where
  "insert_by le x [] = [x]"
| "insert_by le x (y # ys) = (if le x y then x # y # ys else y # insert_by le x ys)"

definition sort_by :: "('a \<Rightarrow> 'a \<Rightarrow> bool) \<Rightarrow> 'a list \<Rightarrow> 'a list" where
  "sort_by le xs = foldr (insert_by le) xs []"

text \<open>
  The GET branch of \<^verbatim>\<open>handle_events\<close>:
  \<^verbatim>\<open>SELECT * FROM events WHERE date >= date("now") ORDER BY date, time LIMIT 50\<close>.
\<close>

definition select_upcoming :: "string \<Rightarrow> event list \<Rightarrow> event list" where
  "select_upcoming today tbl =
     take 50 (sort_by order_by_date_time (filter (\<lambda>e. where_upcoming today (date e)) tbl))"

definition handle_events_GET :: "string \<Rightarrow> event list \<Rightarrow> response" where
  "handle_events_GET today tbl = (Event_list (select_upcoming today tbl), 200)"

datatype http_method = GET | PUT | DELETE

text \<open>
  Binding a sanitised value to a column of TEXT affinity.  A string stands for text that
  has a UTF-8 encoding, which is what the driver binds and SQLite stores and compares; a
  string with a lone surrogate, which the driver refuses, is not among them.
\<close>

fun bind_text :: "pyval \<Rightarrow> string option" where
  "bind_text PNone = None"
| "bind_text (PStr s) = Some s"
| "bind_text (PInt n) = Some (py_str (PInt n))"
| "bind_text (PBool b) = Some (if b then ''1'' else ''0'')"

text \<open>
  Binding the unsanitised \<^verbatim>\<open>data.get('date')\<close> to the \<^verbatim>\<open>date\<close> column, of NUMERIC
  affinity.  The driver refuses (\<open>None\<close>) an integer outside 64 bits and an array or
  object.  What the column keeps for a text or a float (a well-formed or integral number is
  stored as a number, a NaN as \<^verbatim>\<open>NULL\<close>, other text is kept) is the parameter
  \<open>numeric_affinity\<close>.
\<close>

fun bind_date :: "(jsonval \<Rightarrow> sqlval) \<Rightarrow> jsonval \<Rightarrow> sqlval option" where
  "bind_date numeric_affinity (JScalar PNone) = Some SNull"
| "bind_date numeric_affinity (JScalar (PBool b)) = Some (SInt (if b then 1 else 0))"
| "bind_date numeric_affinity (JScalar (PInt n)) = (if int64 n then Some (SInt n) else None)"
| "bind_date numeric_affinity (JScalar (PStr s)) = Some (numeric_affinity (JScalar (PStr s)))"
| "bind_date numeric_affinity (JFloat s) = Some (numeric_affinity (JFloat s))"
| "bind_date numeric_affinity (JComposite s) = None"

text \<open>
  \<^verbatim>\<open>handle_event\<close> for \<^verbatim>\<open>/events/<int:event_id>\<close>.  \<open>now\<close> is
  \<^verbatim>\<open>CURRENT_TIMESTAMP\<close>.  Every statement binds \<open>eid\<close>: outside 64 bits the driver
  raises, and the handler's \<^verbatim>\<open>except Exception\<close> answers 500.  In the
  \<^verbatim>\<open>UPDATE\<close>, \<^verbatim>\<open>title\<close> and \<^verbatim>\<open>date\<close> are \<^verbatim>\<open>NOT NULL\<close>: setting one of
  them to \<^verbatim>\<open>NULL\<close> on a row that exists raises as well; where no row has the id
  the statement changes nothing and succeeds.
\<close>

definition handle_event ::
  "(jsonval \<Rightarrow> sqlval) \<Rightarrow> string \<Rightarrow> http_method \<Rightarrow> session \<Rightarrow> jsonbody option \<Rightarrow> int
     \<Rightarrow> event list \<Rightarrow> response \<times> event list" where
  "handle_event numeric_affinity now method session json eid tbl =
     (case method of
        GET \<Rightarrow>
          if \<not> int64 eid then ((Error ''Failed to fetch event'', 500), tbl)
          else
            (case find (\<lambda>e. event_id e = eid) tbl of
               Some event \<Rightarrow> ((Event_record event, 200), tbl)
             | None \<Rightarrow> ((Error ''Event not found'', 404), tbl))
      | PUT \<Rightarrow>
          if \<not> py_truthy (dict_get session ''is_admin'') then
            ((Error ''Admin authentication required'', 401), tbl)
          else
            (case json of
               None \<Rightarrow> ((Error ''Failed to update event'', 500), tbl)
             | Some data \<Rightarrow>
                 let new_title = bind_text (sanitize_value (json_get data ''title''));
                     new_description = bind_text (sanitize_value (json_get data ''description''));
                     new_date = bind_date numeric_affinity (json_get data ''date'');
                     new_time = bind_text (sanitize_value (json_get data ''time''));
                     new_location = bind_text (sanitize_value (json_get data ''location''));
                     new_image_url = bind_text (sanitize_value (json_get data ''image_url''))
                 in (case new_date of
                       None \<Rightarrow> ((Error ''Failed to update event'', 500), tbl)
                     | Some d \<Rightarrow>
                         if \<not> int64 eid then ((Error ''Failed to update event'', 500), tbl)
                         else
                           (case new_title of
                              None \<Rightarrow>
                                if \<exists>e \<in> set tbl. event_id e = eid
                                then ((Error ''Failed to update event'', 500), tbl)
                                else ((Message ''Event updated successfully'', 200), tbl)
                            | Some t \<Rightarrow>
                                if (\<exists>e \<in> set tbl. event_id e = eid) \<and> d = SNull
                                then ((Error ''Failed to update event'', 500), tbl)
                                else
                                  ((Message ''Event updated successfully'', 200),
                                   map (\<lambda>e. if event_id e = eid
                                             then e\<lparr>title := t,
                                                    description := new_description,
                                                    date := d, time := new_time,
                                                    location := new_location,
                                                    image_url := new_image_url,
                                                    updated_at := now\<rparr>
                                             else e) tbl))))
      | DELETE \<Rightarrow>
          if \<not> py_truthy (dict_get session ''is_admin'') then
            ((Error ''Admin authentication required'', 401), tbl)
          else if \<not> int64 eid then ((Error ''Failed to delete event'', 500), tbl)
          else
            ((Message ''Event deleted successfully'', 200),
             filter (\<lambda>e. event_id e \<noteq> eid) tbl))"

section \<open>Newsletter (\<^verbatim>\<open>handle_newsletter\<close>)\<close>

record subscription =
  subscriber_id :: int
  email :: string
  date_subscribed :: string
  is_active :: bool

text \<open>
  The table with the counter that \<^verbatim>\<open>AUTOINCREMENT\<close> keeps: the largest id ever
  given out.  The next id is one more than the counter and every id in the table; when
  that is no 64-bit integer the \<^verbatim>\<open>INSERT\<close> fails.
\<close>

record newsletter =
  rows :: "subscription list"
  sequence :: int

definition next_id :: "newsletter \<Rightarrow> int" where
  "next_id t = 1 + fold max (map subscriber_id (rows t)) (sequence t)"

text \<open>
  The body of the view, below the decorator.  \<open>now\<close> is \<^verbatim>\<open>CURRENT_TIMESTAMP\<close>.
  \<^verbatim>\<open>re.match\<close> on a value that is not a string raises \<^verbatim>\<open>TypeError\<close>, answered
  with 500.
\<close>

definition handle_newsletter_body ::
  "string \<Rightarrow> jsonbody option \<Rightarrow> newsletter \<Rightarrow> response \<times> newsletter" where
  "handle_newsletter_body now json t =
     (case json of
        None \<Rightarrow> ((Error ''Failed to subscribe to newsletter'', 500), t)
      | Some data \<Rightarrow>
          (case json_get data ''email'' of
             JScalar (PStr addr) \<Rightarrow>
               if addr = [] \<or> \<not> validate_email addr then
                 ((Error ''Valid email address is required'', 400), t)
               else
                 (case find (\<lambda>r. email r = addr) (rows t) of
                    Some existing \<Rightarrow>
                      if is_active existing then
                        ((Message ''Email already subscribed'', 200), t)
                      else
                        ((Message ''Subscription reactivated successfully'', 200),
                         t\<lparr>rows := map (\<lambda>r. if email r = addr then r\<lparr>is_active := True\<rparr> else r)
                                        (rows t)\<rparr>)
                  | None \<Rightarrow>
                      if \<not> int64 (next_id t) then
                        ((Error ''Failed to subscribe to newsletter'', 500), t)
                      else
                        ((Message ''Successfully subscribed to newsletter'', 201),
                         t\<lparr>rows := rows t @ [\<lparr>subscriber_id = next_id t, email = addr,
                                               date_subscribed = now, is_active = True\<rparr>],
                           sequence := next_id t\<rparr>))
           | other \<Rightarrow>
               if \<not> json_truthy other then
                 ((Error ''Valid email address is required'', 400), t)
               else ((Error ''Failed to subscribe to newsletter'', 500), t)))"

text \<open>
  \<^verbatim>\<open>@rate_limit('newsletter')\<close> around the body: the view as the route calls it.
  The state is the \<^verbatim>\<open>rate_limits\<close> table with the \<^verbatim>\<open>newsletter\<close> table.  The
  limiter commits its row before the body runs.
\<close>

definition handle_newsletter ::
  "config \<Rightarrow> string option \<Rightarrow> int \<Rightarrow> string \<Rightarrow> jsonbody option
     \<Rightarrow> rate_row list \<times> newsletter \<Rightarrow> outcome \<times> (rate_row list \<times> newsletter)" where
  "handle_newsletter cfg remote_addr current_time now json db =
     (case rate_limit cfg ''newsletter'' remote_addr current_time (fst db) of
        (Call_handler, limits) \<Rightarrow>
          (case handle_newsletter_body now json (snd db) of
             (resp, t) \<Rightarrow> (Response resp, (limits, t)))
      | (Respond resp, limits) \<Rightarrow> (Response resp, (limits, snd db))
      | (Raise e, limits) \<Rightarrow> (Unhandled e, (limits, snd db)))"

section \<open>Properties of sanitisation\<close>

lemma replace_Nil [simp]: "replace a n [] = []"
  by (simp add: replace_def)

lemma replace_Cons: "replace a n (c # s) = (if c = a then n else [c]) @ replace a n s"
  by (simp add: replace_def)

lemma replace_append: "replace a n (s @ t) = replace a n s @ replace a n t"
  by (simp add: replace_def)

lemma escape_all_esc: "escape_all s = concat (map esc s)"
  by (induction s) (auto simp: escape_all_def esc_def replace_Cons replace_append)

lemma sanitize_input_escape:
  "text \<noteq> PNone \<Longrightarrow> sanitize_input text = PStr (escape_all (re_sub_tags (py_str text)))"
  by (simp add: sanitize_input_def escape_all_def Let_def)

lemma tag_end_re_sub_tags: "tag_end cs = None \<Longrightarrow> tag_end (re_sub_tags cs) = None"
  by (induction cs rule: re_sub_tags.induct) (auto split: if_splits option.splits)

lemma no_tag_left: "\<not> has_tag (re_sub_tags s)"
  by (induction s rule: re_sub_tags.induct) (auto split: option.splits simp: tag_end_re_sub_tags)

lemma esc_chars: "c' \<in> set (esc c) \<Longrightarrow> c' \<noteq> CHR ''<'' \<and> c' \<noteq> CHR ''>'' \<and> c' \<noteq> CHR 0x22 \<and> c' \<noteq> CHR 0x27"
  by (auto simp: esc_def split: if_splits)

lemma escaped_chars:
  "c' \<in> set (escape_all s) \<Longrightarrow> c' \<noteq> CHR ''<'' \<and> c' \<noteq> CHR ''>'' \<and> c' \<noteq> CHR 0x22 \<and> c' \<noteq> CHR 0x27"
  unfolding escape_all_esc using esc_chars by auto

lemma entity_escaped_esc: "entity_escaped r \<Longrightarrow> entity_escaped (esc c @ r)"
  by (simp add: esc_def entities_def)

lemma entity_escaped_escape_all: "entity_escaped (escape_all s)"
  unfolding escape_all_esc by (induction s) (simp_all add: entity_escaped_esc)

lemma html_safe_escape_all: "html_safe (escape_all s)"
  using escaped_chars[of _ s] by (auto simp: html_safe_def entity_escaped_escape_all)

lemma re_sub_tags_no_lt: "CHR ''<'' \<notin> set s \<Longrightarrow> re_sub_tags s = s"
  by (induction s) auto

lemma escape_all_fix: "\<forall>c \<in> set s. \<not> special c \<Longrightarrow> escape_all s = s"
  unfolding escape_all_esc by (induction s) (auto simp: esc_def special_def)

lemma esc_length: "length (esc c) = (if special c then length (esc c) else 1) \<and> 1 \<le> length (esc c)
   \<and> (special c \<longrightarrow> 1 < length (esc c))"
  by (auto simp: esc_def special_def)

lemma escape_all_length: "length s \<le> length (escape_all s)"
  unfolding escape_all_esc
proof (induction s)
  case (Cons c s) then show ?case using esc_length[of c] by simp
qed simp

lemma escape_all_longer: "\<exists>c \<in> set s. special c \<Longrightarrow> length s < length (escape_all s)"
proof (induction s)
  case (Cons c s)
  show ?case
  proof (cases "special c")
    case True
    then have "1 < length (esc c)" using esc_length[of c] by simp
    moreover have "length s \<le> length (concat (map esc s))" using escape_all_length[of s] by (simp add: escape_all_esc)
    ultimately show ?thesis by (simp add: escape_all_esc)
  next
    case False
    with Cons.prems have "\<exists>c \<in> set s. special c" by auto
    then have "length s < length (escape_all s)" by (rule Cons.IH)
    moreover have "1 \<le> length (esc c)" using esc_length[of c] by simp
    ultimately show ?thesis by (simp add: escape_all_esc)
  qed
qed simp

lemma amp_in_escaped: "(CHR ''&'' \<in> set (escape_all s)) = (\<exists>c \<in> set s. special c)"
  unfolding escape_all_esc by (induction s) (auto simp: esc_def special_def)

lemma special_in_escaped: "(\<exists>c \<in> set (escape_all s). special c) = (\<exists>c \<in> set s. special c)"
proof -
  have "(\<exists>c \<in> set (escape_all s). special c) = (CHR ''&'' \<in> set (escape_all s))"
    using escaped_chars[of _ s] by (auto simp: special_def)
  then show ?thesis by (simp add: amp_in_escaped)
qed

text \<open>
  C7.  \<^verbatim>\<open>sanitize_input\<close> returns \<^verbatim>\<open>None\<close> for \<^verbatim>\<open>None\<close>.  For any other
  input it returns the string obtained by removing the tags and then replacing
  \<^verbatim>\<open>&\<close>, \<^verbatim>\<open><\<close>, \<^verbatim>\<open>>\<close>, the double quote and the single quote, in this order;
  after the removal no tag is left, and the returned string has none of
  \<^verbatim>\<open><\<close>, \<^verbatim>\<open>>\<close>, double quote, single quote, and every ampersand in it starts an
  entity, so it is safe to place in HTML as it is.
\<close>

theorem sanitize_input_html_safe:
  "sanitize_input PNone = PNone \<and>
   (text \<noteq> PNone \<longrightarrow>
      (\<exists>clean. sanitize_input text = PStr clean
         \<and> clean =
             replace (CHR 0x27) ''&#x27;''
               (replace (CHR 0x22) ''&quot;''
                 (replace (CHR ''>'') ''&gt;''
                   (replace (CHR ''<'') ''&lt;''
                     (replace (CHR ''&'') ''&amp;'' (re_sub_tags (py_str text))))))
         \<and> \<not> has_tag (re_sub_tags (py_str text))
         \<and> CHR ''<'' \<notin> set clean \<and> CHR ''>'' \<notin> set clean
         \<and> CHR 0x22 \<notin> set clean \<and> CHR 0x27 \<notin> set clean
         \<and> html_safe clean))"
proof (intro conjI impI)
  show "sanitize_input PNone = PNone"
    by (simp add: sanitize_input_def)
next
  assume nn: "text \<noteq> PNone"
  let ?t = "re_sub_tags (py_str text)"
  have r: "sanitize_input text = PStr (escape_all ?t)"
    using nn by (rule sanitize_input_escape)
  have safe: "html_safe (escape_all ?t)"
    by (rule html_safe_escape_all)
  show "\<exists>clean. sanitize_input text = PStr clean
         \<and> clean =
             replace (CHR 0x27) ''&#x27;''
               (replace (CHR 0x22) ''&quot;''
                 (replace (CHR ''>'') ''&gt;''
                   (replace (CHR ''<'') ''&lt;''
                     (replace (CHR ''&'') ''&amp;'' (re_sub_tags (py_str text))))))
         \<and> \<not> has_tag (re_sub_tags (py_str text))
         \<and> CHR ''<'' \<notin> set clean \<and> CHR ''>'' \<notin> set clean
         \<and> CHR 0x22 \<notin> set clean \<and> CHR 0x27 \<notin> set clean
         \<and> html_safe clean"
    using r safe no_tag_left[of "py_str text"]
    by (simp add: escape_all_def html_safe_def)
qed

theorem sanitize_input_html_safe_witness:
  "PStr ''<b>Tom & 'Jerry'</b> <3'' \<noteq> PNone
   \<and> sanitize_input (PStr ''<b>Tom & 'Jerry'</b> <3'') = PStr ''Tom &amp; &#x27;Jerry&#x27; &lt;3''
   \<and> html_safe ''Tom &amp; &#x27;Jerry&#x27; &lt;3''"
proof -
  have v: "sanitize_input (PStr ''<b>Tom & 'Jerry'</b> <3'') = PStr ''Tom &amp; &#x27;Jerry&#x27; &lt;3''"
    by (simp add: sanitize_input_def replace_def)
  show ?thesis
    using v sanitize_input_html_safe[of "PStr ''<b>Tom & 'Jerry'</b> <3''"] by auto
qed

text \<open>
  C9 (as amended).  Sanitising twice differs from sanitising once exactly for the inputs
  whose text still holds one of \<^verbatim>\<open>&\<close>, \<^verbatim>\<open><\<close>, \<^verbatim>\<open>>\<close>, double quote, single quote
  once the tags are removed: the first pass writes an ampersand for it, and the second
  pass escapes that ampersand again.
\<close>

theorem sanitize_input_twice:
  "(sanitize_input (sanitize_input x) \<noteq> sanitize_input x)
   = (x \<noteq> PNone \<and> (\<exists>c \<in> set (re_sub_tags (py_str x)). special c))"
proof (cases "x = PNone")
  case True then show ?thesis by (simp add: sanitize_input_def)
next
  case False
  define e where "e = escape_all (re_sub_tags (py_str x))"
  have s1: "sanitize_input x = PStr e" using False by (simp add: sanitize_input_escape e_def)
  have "CHR ''<'' \<notin> set e" using escaped_chars[of "CHR ''<''" "re_sub_tags (py_str x)"] by (auto simp: e_def)
  then have s2: "sanitize_input (PStr e) = PStr (escape_all e)"
    by (simp add: sanitize_input_escape re_sub_tags_no_lt)
  have "(escape_all e \<noteq> e) = (\<exists>c \<in> set e. special c)"
    using escape_all_fix[of e] escape_all_longer[of e] by fastforce
  then show ?thesis using False s1 s2 special_in_escaped[of "re_sub_tags (py_str x)"] by (simp add: e_def)
qed

theorem sanitize_input_twice_witness:
  "sanitize_input (sanitize_input (PStr ''a&b'')) \<noteq> sanitize_input (PStr ''a&b'')"
proof -
  have "\<exists>c \<in> set (re_sub_tags (py_str (PStr ''a&b''))). special c"
    by (simp add: special_def)
  then show ?thesis
    using sanitize_input_twice[of "PStr ''a&b''"] by simp
qed

text \<open>
  A string that contains \<^verbatim>\<open><\<close> and \<^verbatim>\<open>>\<close> and is nevertheless unchanged by a second
  pass: its special characters all lie in a tag, which the first pass removes.
\<close>

theorem sanitize_input_tag_fixed_point:
  "CHR ''<'' \<in> set ''<b>'' \<and> CHR ''>'' \<in> set ''<b>''
   \<and> sanitize_input (sanitize_input (PStr ''<b>'')) = sanitize_input (PStr ''<b>'')"
  by (simp add: sanitize_input_def replace_def)

section \<open>Properties of email validation\<close>

lemma conc_Nil_iff: "([] \<in> conc A B) = ([] \<in> A \<and> [] \<in> B)"
  by (auto simp: conc_def)

lemma nullable_lang: "nullable r = ([] \<in> lang r)"
  by (induction r) (auto simp: conc_Nil_iff intro: star.star_empty)

lemma conc_Cons_iff:
  "(c # w \<in> conc A B) =
   (([] \<in> A \<and> c # w \<in> B) \<or> (\<exists>u v. w = u @ v \<and> c # u \<in> A \<and> v \<in> B))"
proof
  assume "c # w \<in> conc A B"
  then obtain x y where xy: "c # w = x @ y" "x \<in> A" "y \<in> B" by (auto simp: conc_def)
  show "([] \<in> A \<and> c # w \<in> B) \<or> (\<exists>u v. w = u @ v \<and> c # u \<in> A \<and> v \<in> B)"
  proof (cases x)
    case Nil with xy show ?thesis by simp
  next
    case (Cons a x') with xy show ?thesis by auto
  qed
next
  assume "([] \<in> A \<and> c # w \<in> B) \<or> (\<exists>u v. w = u @ v \<and> c # u \<in> A \<and> v \<in> B)"
  then show "c # w \<in> conc A B"
  proof
    assume "[] \<in> A \<and> c # w \<in> B"
    then have "[] @ (c # w) \<in> conc A B" unfolding conc_def by blast
    then show ?thesis by simp
  next
    assume "\<exists>u v. w = u @ v \<and> c # u \<in> A \<and> v \<in> B"
    then obtain u v where "w = u @ v" "c # u \<in> A" "v \<in> B" by blast
    then have "(c # u) @ v \<in> conc A B" unfolding conc_def by blast
    with \<open>w = u @ v\<close> show ?thesis by simp
  qed
qed

lemma star_Cons_elim:
  "x \<in> star A \<Longrightarrow> x = c # w \<Longrightarrow> \<exists>u v. w = u @ v \<and> c # u \<in> A \<and> v \<in> star A"
proof (induction arbitrary: c w rule: star.induct)
  case star_empty then show ?case by simp
next
  case (star_step u v)
  show ?case
  proof (cases u)
    case Nil with star_step show ?thesis by simp
  next
    case (Cons a u') with star_step show ?thesis by auto
  qed
qed

lemma star_Cons_iff:
  "(c # w \<in> star A) = (\<exists>u v. w = u @ v \<and> c # u \<in> A \<and> v \<in> star A)"
proof
  assume "c # w \<in> star A" then show "\<exists>u v. w = u @ v \<and> c # u \<in> A \<and> v \<in> star A"
    using star_Cons_elim by blast
next
  assume "\<exists>u v. w = u @ v \<and> c # u \<in> A \<and> v \<in> star A"
  then obtain u v where "w = u @ v" "c # u \<in> A" "v \<in> star A" by blast
  then have "(c # u) @ v \<in> star A" by (blast intro: star.star_step)
  with \<open>w = u @ v\<close> show "c # w \<in> star A" by simp
qed

lemma deriv_lang: "(w \<in> lang (deriv c r)) = (c # w \<in> lang r)"
proof (induction r arbitrary: w)
  case (Seq r s)
  then show ?case by (auto simp: conc_Cons_iff nullable_lang) (auto simp: conc_def)
next
  case (Star r)
  then show ?case by (auto simp: star_Cons_iff) (auto simp: conc_def)
qed auto

lemma re_match_lang: "re_match r s = (\<exists>p q. s = p @ q \<and> p \<in> lang r)"
proof (induction s arbitrary: r)
  case Nil then show ?case by (simp add: nullable_lang)
next
  case (Cons c s)
  show ?case
  proof
    assume "re_match r (c # s)"
    then consider "nullable r" | "re_match (deriv c r) s" by auto
    then show "\<exists>p q. c # s = p @ q \<and> p \<in> lang r"
    proof cases
      case 1 then have "c # s = [] @ (c # s) \<and> [] \<in> lang r" by (simp add: nullable_lang)
      then show ?thesis by blast
    next
      case 2
      then obtain p q where "s = p @ q" "p \<in> lang (deriv c r)" using Cons.IH by blast
      then have "c # s = (c # p) @ q \<and> c # p \<in> lang r" by (simp add: deriv_lang)
      then show ?thesis by blast
    qed
  next
    assume "\<exists>p q. c # s = p @ q \<and> p \<in> lang r"
    then obtain p q where pq: "c # s = p @ q" "p \<in> lang r" by blast
    show "re_match r (c # s)"
    proof (cases p)
      case Nil
      with pq have "nullable r" by (simp add: nullable_lang)
      then show ?thesis by simp
    next
      case (Cons a p')
      with pq have "s = p' @ q" "p' \<in> lang (deriv c r)" by (auto simp: deriv_lang)
      then have "re_match (deriv c r) s" using Cons.IH by blast
      then show ?thesis by simp
    qed
  qed
qed

lemma lang_SeqD: "w \<in> lang (Seq r s) \<Longrightarrow> \<exists>u v. w = u @ v \<and> u \<in> lang r \<and> v \<in> lang s"
  by (auto simp: conc_def)

lemma lang_ClsD: "w \<in> lang (Cls P) \<Longrightarrow> \<exists>c. w = [c] \<and> P c"
  by auto

lemma pattern_words:
  assumes "p \<in> lang pattern"
  shows "\<exists>l d a b t. p = l @ CHR ''@'' # d @ CHR ''.'' # a # b # t \<and> is_alpha a \<and> is_alpha b"
proof -
  from assms obtain l r1 where 1: "p = l @ r1"
    and r1: "r1 \<in> lang (Seq (Cls is_at) (Seq (Plus (Cls domain_char)) (Seq (Cls is_dot) (AtLeast2 (Cls is_alpha)))))"
    unfolding pattern_def using lang_SeqD by blast
  from r1 obtain x r2 where 2: "r1 = x @ r2" "x \<in> lang (Cls is_at)"
    and r2: "r2 \<in> lang (Seq (Plus (Cls domain_char)) (Seq (Cls is_dot) (AtLeast2 (Cls is_alpha))))"
    using lang_SeqD by blast
  from r2 obtain d r3 where 3: "r2 = d @ r3"
    and r3: "r3 \<in> lang (Seq (Cls is_dot) (AtLeast2 (Cls is_alpha)))"
    using lang_SeqD by blast
  from r3 obtain y r4 where 4: "r3 = y @ r4" "y \<in> lang (Cls is_dot)"
    and r4: "r4 \<in> lang (Seq (Cls is_alpha) (Seq (Cls is_alpha) (Star (Cls is_alpha))))"
    unfolding AtLeast2_def using lang_SeqD by blast
  from r4 obtain a' r5 where 5: "r4 = a' @ r5" "a' \<in> lang (Cls is_alpha)"
    and r5: "r5 \<in> lang (Seq (Cls is_alpha) (Star (Cls is_alpha)))"
    using lang_SeqD by blast
  from r5 obtain b' t where 6: "r5 = b' @ t" "b' \<in> lang (Cls is_alpha)"
    using lang_SeqD by blast
  from 2 have x: "x = [CHR ''@'']" by (auto simp: is_at_def)
  from 4 have y: "y = [CHR ''.'']" by (auto simp: is_dot_def)
  from 5 obtain a where a: "a' = [a]" "is_alpha a" using lang_ClsD by blast
  from 6 obtain b where b: "b' = [b]" "is_alpha b" using lang_ClsD by blast
  have "p = l @ CHR ''@'' # d @ CHR ''.'' # a # b # t"
    using 1 2 3 4 5 6 x y a b by simp
  with a b show ?thesis by blast
qed

lemma has_tld_here: "is_alpha a \<Longrightarrow> is_alpha b \<Longrightarrow> has_tld (u @ CHR ''.'' # a # b # t)"
proof (induction u)
  case Nil then show ?case by simp
next
  case (Cons x u)
  then have "has_tld (u @ CHR ''.'' # a # b # t)" by simp
  moreover obtain y z r where "u @ CHR ''.'' # a # b # t = y # z # r"
    by (cases u; cases "tl u") auto
  ultimately show ?case by simp
qed

lemma has_tld_append: "has_tld p \<Longrightarrow> has_tld (p @ q)"
  by (induction p rule: has_tld.induct) auto

text \<open>
  C8.  \<^verbatim>\<open>validate_email\<close> is true exactly when some prefix of the input is a word of
  the pattern, whatever follows that prefix; it is false for every string without
  \<^verbatim>\<open>@\<close>, and for every string in which no dot is followed by two letters.
\<close>

theorem validate_email_prefix_match:
  "(validate_email s = (\<exists>p q. s = p @ q \<and> p \<in> lang pattern))
   \<and> (CHR ''@'' \<notin> set s \<longrightarrow> \<not> validate_email s)
   \<and> (\<not> has_tld s \<longrightarrow> \<not> validate_email s)"
proof (intro conjI impI)
  show iff: "validate_email s = (\<exists>p q. s = p @ q \<and> p \<in> lang pattern)"
    by (simp add: validate_email_def re_match_lang)
  show "\<not> validate_email s" if "CHR ''@'' \<notin> set s"
  proof
    assume "validate_email s"
    then obtain p q where "s = p @ q" "p \<in> lang pattern" using iff by blast
    then show False using that pattern_words[of p] by auto
  qed
  show "\<not> validate_email s" if "\<not> has_tld s"
  proof
    assume "validate_email s"
    then obtain p q where pq: "s = p @ q" "p \<in> lang pattern" using iff by blast
    then obtain l d a b t where "p = l @ CHR ''@'' # d @ CHR ''.'' # a # b # t" "is_alpha a" "is_alpha b"
      using pattern_words[of p] by blast
    then have "has_tld p" using has_tld_here[of a b "l @ CHR ''@'' # d" t] by simp
    then show False using that pq has_tld_append by blast
  qed
qed

theorem validate_email_prefix_match_witness: "validate_email ''a@b.co!!'' \<and> (\<exists>p q. ''a@b.co!!'' = p @ q \<and> p \<in> lang pattern)
   \<and> CHR ''@'' \<notin> set ''ab.com'' \<and> \<not> validate_email ''ab.com''
   \<and> \<not> has_tld ''a@b.c'' \<and> \<not> validate_email ''a@b.c''"
proof -
  have v: "validate_email ''a@b.co!!''" by code_simp
  have a: "CHR ''@'' \<notin> set ''ab.com''" by simp
  have t: "\<not> has_tld ''a@b.c''" by (simp add: is_alpha_def)
  show ?thesis using v a t validate_email_prefix_match[of "''a@b.co!!''"] validate_email_prefix_match[of "''ab.com''"] validate_email_prefix_match[of "''a@b.c''"] by blast
qed

section \<open>Properties of the admin login\<close>

lemma py_eq_PStr: "py_eq v (PStr s) = (v = PStr s)"
  by (cases v) auto

lemma py_eq_PNone: "py_eq v PNone = (v = PNone)"
  by (cases v) auto

lemma admin_login_complete_iff:
  "admin_login_complete cfg session (Some data) =
     (if dict_get data ''username'' = PStr (ADMIN_USERNAME cfg)
         \<and> dict_get data ''password'' = PStr (ADMIN_PASSWORD cfg)
      then ((Message ''Login successful'', 200), session(''is_admin'' \<mapsto> PBool True))
      else ((Error ''Invalid credentials'', 401), session))"
  by (simp add: admin_login_complete_def py_eq_PStr Let_def)

text \<open>
  C1.  With the default credentials of the configuration and an empty session, the
  blueprint's login answers 401 to the configured username and password and leaves the
  session as it was, and answers 200 and sets \<^verbatim>\<open>is_admin\<close> for a body that has
  neither field.  (The single-file application compares with the configuration, see
  \<open>admin_login_complete_iff\<close>.)
\<close>

theorem admin_login_blueprint_ignores_config:
  "admin_login Map.empty
     (Some [''username'' \<mapsto> PStr ''admin'', ''password'' \<mapsto> PStr ''admin123''])
     = ((Error ''Invalid credentials'', 401), Map.empty)
   \<and> admin_login Map.empty (Some Map.empty)
     = ((Message ''Login successful'', 200), [''is_admin'' \<mapsto> PBool True])"
  by (simp add: admin_login_def dict_get_def)

text \<open>
  C2.  In the blueprint, for every session without the keys \<^verbatim>\<open>ADMIN_USERNAME\<close> and
  \<^verbatim>\<open>ADMIN_PASSWORD\<close>: a body with neither \<^verbatim>\<open>username\<close> nor \<^verbatim>\<open>password\<close>
  logs in (200, \<^verbatim>\<open>is_admin\<close> set to true), and a body that supplies the configured
  username and password is answered 401 with the session unchanged.
\<close>

theorem admin_login_session_keys:
  assumes "session ''ADMIN_USERNAME'' = None" and "session ''ADMIN_PASSWORD'' = None"
  shows "(data ''username'' = None \<and> data ''password'' = None \<longrightarrow>
            admin_login session (Some data)
              = ((Message ''Login successful'', 200), session(''is_admin'' \<mapsto> PBool True)))
       \<and> (supplied ''username'' = Some (PStr (ADMIN_USERNAME cfg))
            \<and> supplied ''password'' = Some (PStr (ADMIN_PASSWORD cfg)) \<longrightarrow>
            admin_login session (Some supplied) = ((Error ''Invalid credentials'', 401), session))"
  using assms by (simp add: admin_login_def dict_get_def)

theorem admin_login_session_keys_witness:
  "admin_login [''user_id'' \<mapsto> PInt 7] (Some Map.empty)
     = ((Message ''Login successful'', 200), [''user_id'' \<mapsto> PInt 7, ''is_admin'' \<mapsto> PBool True])
   \<and> admin_login [''user_id'' \<mapsto> PInt 7]
        (Some [''username'' \<mapsto> PStr ''admin'', ''password'' \<mapsto> PStr ''admin123''])
     = ((Error ''Invalid credentials'', 401), [''user_id'' \<mapsto> PInt 7])"
proof -
  define cfg where "cfg = \<lparr>ADMIN_USERNAME = ''admin'', ADMIN_PASSWORD = ''admin123'',
     RATE_LIMIT_ENABLED = True, RATE_LIMIT_REQUESTS = 100, RATE_LIMIT_PERIOD = 3600\<rparr>"
  define supplied :: pydict
    where "supplied = [''username'' \<mapsto> PStr ''admin'', ''password'' \<mapsto> PStr ''admin123'']"
  have a: "[''user_id'' \<mapsto> PInt 7] ''ADMIN_USERNAME'' = None" by simp
  have b: "[''user_id'' \<mapsto> PInt 7] ''ADMIN_PASSWORD'' = None" by simp
  have c: "(Map.empty :: pydict) ''username'' = None \<and> (Map.empty :: pydict) ''password'' = None"
    by simp
  have d: "supplied ''username'' = Some (PStr (ADMIN_USERNAME cfg))
         \<and> supplied ''password'' = Some (PStr (ADMIN_PASSWORD cfg))"
    by (simp add: supplied_def cfg_def)
  from admin_login_session_keys[OF a b, of Map.empty supplied cfg] c d show ?thesis
    unfolding supplied_def by blast
qed

section \<open>Properties of the rate limiter\<close>

lemma count_recent_clean_old:
  "count_recent addr ep w (clean_old w tbl) = count_recent addr ep w tbl"
proof -
  have "filter (\<lambda>r. Some (ip_address r) = addr \<and> endpoint r = ep \<and> timestamp r > w)
          (filter (\<lambda>r. \<not> timestamp r < w) tbl)
      = filter (\<lambda>r. Some (ip_address r) = addr \<and> endpoint r = ep \<and> timestamp r > w) tbl"
    by (induction tbl) auto
  then show ?thesis by (simp add: count_recent_def clean_old_def)
qed

lemma count_recent_removeAll:
  "timestamp e \<le> w \<Longrightarrow> count_recent addr ep w (removeAll e tbl) = count_recent addr ep w tbl"
proof -
  assume e: "timestamp e \<le> w"
  have "filter (\<lambda>r. Some (ip_address r) = addr \<and> endpoint r = ep \<and> timestamp r > w) (removeAll e tbl)
      = filter (\<lambda>r. Some (ip_address r) = addr \<and> endpoint r = ep \<and> timestamp r > w) tbl"
    using e by (induction tbl) auto
  then show ?thesis by (simp add: count_recent_def)
qed

lemma rate_limit_decision:
  assumes "RATE_LIMIT_ENABLED cfg" and "time_window cfg current_time = Some w"
  shows "rate_limit cfg ep addr current_time tbl =
     (if RATE_LIMIT_REQUESTS cfg \<le> count_recent addr ep w tbl then
        (Respond (Error ''Rate limit exceeded. Please try again later.'', 429), tbl)
      else
        (case addr of
           None \<Rightarrow> (Raise IntegrityError, tbl)
         | Some ip \<Rightarrow>
             if \<lparr>ip_address = ip, endpoint = ep, timestamp = current_time\<rparr> \<in> set (clean_old w tbl)
             then (Raise IntegrityError, tbl)
             else (Call_handler,
                   clean_old w tbl @ [\<lparr>ip_address = ip, endpoint = ep, timestamp = current_time\<rparr>])))"
  using assms by (simp add: rate_limit_def Let_def count_recent_clean_old split: option.split)

text \<open>
  C3.  A request that arrives with the timestamp of a row already stored for the same
  client and endpoint, the limit being 100: one stored row is newer than the cutoff, so the
  request is under the limit, yet the insert violates the primary key, the exception
  escapes the decorator, nothing is inserted and the handler is not called.
\<close>

theorem rate_limit_duplicate_row:
  "rate_limit \<lparr>ADMIN_USERNAME = ''admin'', ADMIN_PASSWORD = ''admin123'',
       RATE_LIMIT_ENABLED = True, RATE_LIMIT_REQUESTS = 100, RATE_LIMIT_PERIOD = 3600\<rparr>
     ''contact'' (Some ''10.0.0.1'') 63900000000000000
     [\<lparr>ip_address = ''10.0.0.1'', endpoint = ''contact'', timestamp = 63900000000000000\<rparr>]
   = (Raise IntegrityError,
      [\<lparr>ip_address = ''10.0.0.1'', endpoint = ''contact'', timestamp = 63900000000000000\<rparr>])
   \<and> count_recent (Some ''10.0.0.1'') ''contact'' (63900000000000000 - 3600000000)
        [\<lparr>ip_address = ''10.0.0.1'', endpoint = ''contact'', timestamp = 63900000000000000\<rparr>]
      = 1"
  by (simp add: rate_limit_def time_window_def timedelta_seconds_def datetime_max_def
        count_recent_def clean_old_def)

text \<open>
  C4.  With rate limiting enabled and a cutoff that is a \<^verbatim>\<open>datetime\<close>, a stored row
  whose timestamp equals the cutoff is kept by the deletion and is in the table after the
  check, and the check answers 429 exactly when the limit is reached by the rows counted
  in the table without that row: the row takes no part in the count that decides.
\<close>

theorem rate_limit_boundary_entry:
  assumes "RATE_LIMIT_ENABLED cfg" and "time_window cfg current_time = Some w"
    and "e \<in> set tbl" and "timestamp e = w"
  shows "e \<in> set (clean_old w tbl)
       \<and> e \<in> set (snd (rate_limit cfg ep addr current_time tbl))
       \<and> ((fst (rate_limit cfg ep addr current_time tbl)
              = Respond (Error ''Rate limit exceeded. Please try again later.'', 429))
           = (RATE_LIMIT_REQUESTS cfg \<le> count_recent addr ep w (removeAll e tbl)))"
proof (intro conjI)
  show 1: "e \<in> set (clean_old w tbl)"
    using assms(3,4) by (simp add: clean_old_def)
  show "e \<in> set (snd (rate_limit cfg ep addr current_time tbl))"
    using assms(3) 1 by (simp add: rate_limit_decision[OF assms(1,2)] split: option.split)
  have c: "count_recent addr ep w (removeAll e tbl) = count_recent addr ep w tbl"
    using assms(4) by (simp add: count_recent_removeAll)
  show "(fst (rate_limit cfg ep addr current_time tbl)
              = Respond (Error ''Rate limit exceeded. Please try again later.'', 429))
           = (RATE_LIMIT_REQUESTS cfg \<le> count_recent addr ep w (removeAll e tbl))"
    unfolding c by (simp add: rate_limit_decision[OF assms(1,2)] split: option.split)
qed

theorem rate_limit_boundary_entry_witness:
  "rate_limit \<lparr>ADMIN_USERNAME = ''admin'', ADMIN_PASSWORD = ''admin123'',
       RATE_LIMIT_ENABLED = True, RATE_LIMIT_REQUESTS = 1, RATE_LIMIT_PERIOD = 60\<rparr>
     ''contact'' (Some ''10.0.0.1'') 63900000060000000
     [\<lparr>ip_address = ''10.0.0.1'', endpoint = ''contact'', timestamp = 63900000000000000\<rparr>]
   = (Call_handler,
      [\<lparr>ip_address = ''10.0.0.1'', endpoint = ''contact'', timestamp = 63900000000000000\<rparr>,
       \<lparr>ip_address = ''10.0.0.1'', endpoint = ''contact'', timestamp = 63900000060000000\<rparr>])
   \<and> \<not> (1 \<le> count_recent (Some ''10.0.0.1'') ''contact'' 63900000000000000
             (removeAll \<lparr>ip_address = ''10.0.0.1'', endpoint = ''contact'',
                          timestamp = 63900000000000000\<rparr>
                [\<lparr>ip_address = ''10.0.0.1'', endpoint = ''contact'',
                   timestamp = 63900000000000000\<rparr>]))"
proof -
  define cfg where "cfg = \<lparr>ADMIN_USERNAME = ''admin'', ADMIN_PASSWORD = ''admin123'',
       RATE_LIMIT_ENABLED = True, RATE_LIMIT_REQUESTS = 1, RATE_LIMIT_PERIOD = 60\<rparr>"
  define e where "e = \<lparr>ip_address = ''10.0.0.1'', endpoint = ''contact'',
       timestamp = 63900000000000000\<rparr>"
  have en: "RATE_LIMIT_ENABLED cfg" by (simp add: cfg_def)
  have tw: "time_window cfg 63900000060000000 = Some 63900000000000000"
    by (simp add: cfg_def time_window_def timedelta_seconds_def datetime_max_def)
  have mem: "e \<in> set [e]" by simp
  have ts: "timestamp e = 63900000000000000" by (simp add: e_def)
  have lim: "RATE_LIMIT_REQUESTS cfg = 1" by (simp add: cfg_def)
  have v: "rate_limit cfg ''contact'' (Some ''10.0.0.1'') 63900000060000000 [e]
             = (Call_handler, [e, \<lparr>ip_address = ''10.0.0.1'', endpoint = ''contact'',
                                    timestamp = 63900000060000000\<rparr>])"
    by (simp add: rate_limit_def tw en lim count_recent_def clean_old_def e_def)
  have "(fst (rate_limit cfg ''contact'' (Some ''10.0.0.1'') 63900000060000000 [e])
           = Respond (Error ''Rate limit exceeded. Please try again later.'', 429))
        = (RATE_LIMIT_REQUESTS cfg
             \<le> count_recent (Some ''10.0.0.1'') ''contact'' 63900000000000000 (removeAll e [e]))"
    using rate_limit_boundary_entry[OF en tw mem ts, of "''contact''" "Some ''10.0.0.1''"] by blast
  then have "\<not> (1 \<le> count_recent (Some ''10.0.0.1'') ''contact'' 63900000000000000
                     (removeAll e [e]))"
    unfolding v lim by simp
  with v show ?thesis unfolding cfg_def e_def by blast
qed

section \<open>Rows found by a unique key\<close>

lemma find_absent: "\<forall>e \<in> set xs. \<not> P e \<Longrightarrow> find P xs = None"
  by (induction xs) auto

lemma find_unique:
  assumes "x \<in> set xs" and "P x" and "\<forall>y \<in> set xs. P y \<longrightarrow> y = x"
  shows "find P xs = Some x"
  using assms
proof (induction xs)
  case Nil
  then show ?case by simp
next
  case (Cons a xs)
  show ?case
  proof (cases "P a")
    case True
    then have "a = x" using Cons.prems(3) by simp
    with True show ?thesis by simp
  next
    case False
    then have "x \<in> set xs" using Cons.prems(1,2) by auto
    moreover have "\<forall>y \<in> set xs. P y \<longrightarrow> y = x" using Cons.prems(3) by simp
    ultimately have "find P xs = Some x" using Cons.IH Cons.prems(2) by blast
    with False show ?thesis by simp
  qed
qed

lemma map_unchanged: "\<forall>e \<in> set xs. \<not> P e \<Longrightarrow> map (\<lambda>e. if P e then f e else e) xs = xs"
  by (induction xs) auto

lemma filter_unchanged: "\<forall>e \<in> set xs. \<not> P e \<Longrightarrow> filter (\<lambda>e. \<not> P e) xs = xs"
  by (induction xs) auto

lemma find_by_key:
  assumes "x \<in> set xs" and "key x = k" and "distinct (map key xs)"
  shows "find (\<lambda>e. key e = k) xs = Some x"
proof -
  have inj: "inj_on key (set xs)"
    using assms(3) by (simp add: distinct_map)
  have uniq: "\<forall>y \<in> set xs. key y = k \<longrightarrow> y = x"
  proof (intro ballI impI)
    fix y assume y: "y \<in> set xs" and "key y = k"
    then have eq: "key y = key x" using assms(2) by simp
    show "y = x" using inj eq y assms(1) by (rule inj_onD)
  qed
  show ?thesis
    by (rule find_unique[where P = "\<lambda>e. key e = k" and x = x and xs = xs,
          OF assms(1) assms(2) uniq])
qed

lemma one_row_by_key:
  assumes xs: "xs = pre @ x # post" and "key x = k" and "distinct (map key xs)"
  shows "map (\<lambda>e. if key e = k then f e else e) xs = pre @ f x # post"
    and "filter (\<lambda>e. key e \<noteq> k) xs = pre @ post"
proof -
  have d: "distinct (map key pre @ key x # map key post)"
    using assms(3) unfolding xs by simp
  have n1: "key x \<notin> key ` set pre" and n2: "key x \<notin> key ` set post"
    using d by auto
  have p1: "\<forall>e \<in> set pre. \<not> key e = k"
  proof (intro ballI notI)
    fix e assume "e \<in> set pre" and e: "key e = k"
    then have "key e \<in> key ` set pre" by (intro imageI)
    then show False using n1 e assms(2) by simp
  qed
  have p2: "\<forall>e \<in> set post. \<not> key e = k"
  proof (intro ballI notI)
    fix e assume "e \<in> set post" and e: "key e = k"
    then have "key e \<in> key ` set post" by (intro imageI)
    then show False using n2 e assms(2) by simp
  qed
  have m1: "map (\<lambda>e. if key e = k then f e else e) pre = pre"
    using p1 by (rule map_unchanged)
  have m2: "map (\<lambda>e. if key e = k then f e else e) post = post"
    using p2 by (rule map_unchanged)
  have f1: "filter (\<lambda>e. \<not> key e = k) pre = pre"
    using p1 by (rule filter_unchanged)
  have f2: "filter (\<lambda>e. \<not> key e = k) post = post"
    using p2 by (rule filter_unchanged)
  show "map (\<lambda>e. if key e = k then f e else e) xs = pre @ f x # post"
    unfolding xs using m1 m2 assms(2) by simp
  show "filter (\<lambda>e. key e \<noteq> k) xs = pre @ post"
    unfolding xs using f1 f2 assms(2) by simp
qed

section \<open>Properties of the event handlers\<close>

lemma handle_event_absent:
  assumes "int64 eid" and absent: "\<forall>e \<in> set tbl. event_id e \<noteq> eid"
  shows "handle_event aff now GET session json eid tbl = ((Error ''Event not found'', 404), tbl)"
    and "py_truthy (dict_get session ''is_admin'') \<Longrightarrow> bind_date aff (json_get data ''date'') \<noteq> None \<Longrightarrow>
           handle_event aff now PUT session (Some data) eid tbl
             = ((Message ''Event updated successfully'', 200), tbl)"
    and "py_truthy (dict_get session ''is_admin'') \<Longrightarrow>
           handle_event aff now DELETE session json eid tbl
             = ((Message ''Event deleted successfully'', 200), tbl)"
proof -
  have f: "find (\<lambda>e. event_id e = eid) tbl = None" using absent by (simp add: find_absent)
  show "handle_event aff now GET session json eid tbl = ((Error ''Event not found'', 404), tbl)"
    using assms(1) by (simp add: handle_event_def f)
  have ne: "\<not> (\<exists>e \<in> set tbl. event_id e = eid)" using absent by blast
  have m: "map (\<lambda>e. if event_id e = eid then g e else e) tbl = tbl" for g
    using absent by (simp add: map_unchanged)
  have d: "filter (\<lambda>e. event_id e \<noteq> eid) tbl = tbl"
    using absent filter_unchanged[of tbl "\<lambda>e. event_id e = eid"] by simp
  show "handle_event aff now PUT session (Some data) eid tbl
             = ((Message ''Event updated successfully'', 200), tbl)"
    if "py_truthy (dict_get session ''is_admin'')" "bind_date aff (json_get data ''date'') \<noteq> None"
    using that assms(1) ne by (auto simp: handle_event_def Let_def m split: option.split)
  show "handle_event aff now DELETE session json eid tbl
             = ((Message ''Event deleted successfully'', 200), tbl)"
    if "py_truthy (dict_get session ''is_admin'')"
    using that assms(1) by (simp add: handle_event_def d)
qed

lemma handle_event_not_admin:
  assumes "\<not> py_truthy (dict_get session ''is_admin'')"
  shows "handle_event aff now PUT session json eid tbl
           = ((Error ''Admin authentication required'', 401), tbl)"
    and "handle_event aff now DELETE session json eid tbl
           = ((Error ''Admin authentication required'', 401), tbl)"
  using assms by (simp_all add: handle_event_def)

lemma handle_event_present:
  assumes "int64 eid" and "ev \<in> set tbl" and "event_id ev = eid" and "distinct (map event_id tbl)"
  shows "handle_event aff now GET session json eid tbl = ((Event_record ev, 200), tbl)"
    and "py_truthy (dict_get session ''is_admin'') \<Longrightarrow>
         \<exists>pre post. tbl = pre @ ev # post
           \<and> handle_event aff now DELETE session json eid tbl
               = ((Message ''Event deleted successfully'', 200), pre @ post)
           \<and> (\<forall>t d. bind_text (sanitize_value (json_get data ''title'')) = Some t
                    \<and> bind_date aff (json_get data ''date'') = Some d \<and> d \<noteq> SNull \<longrightarrow>
                 handle_event aff now PUT session (Some data) eid tbl
                   = ((Message ''Event updated successfully'', 200),
                      pre @ ev\<lparr>title := t,
                               description := bind_text (sanitize_value (json_get data ''description'')),
                               date := d,
                               time := bind_text (sanitize_value (json_get data ''time'')),
                               location := bind_text (sanitize_value (json_get data ''location'')),
                               image_url := bind_text (sanitize_value (json_get data ''image_url'')),
                               updated_at := now\<rparr> # post))"
proof -
  have "find (\<lambda>e. event_id e = eid) tbl = Some ev"
    using assms(2,3,4) by (rule find_by_key)
  then show "handle_event aff now GET session json eid tbl = ((Event_record ev, 200), tbl)"
    using assms(1) by (simp add: handle_event_def)
next
  assume adm: "py_truthy (dict_get session ''is_admin'')"
  let ?upd = "\<lambda>t d e. e\<lparr>title := t,
       description := bind_text (sanitize_value (json_get data ''description'')),
       date := d,
       time := bind_text (sanitize_value (json_get data ''time'')),
       location := bind_text (sanitize_value (json_get data ''location'')),
       image_url := bind_text (sanitize_value (json_get data ''image_url'')),
       updated_at := now\<rparr>"
  from assms(2) obtain pre post where tbl: "tbl = pre @ ev # post"
    by (auto dest: split_list)
  have shape: "map (\<lambda>e. if event_id e = eid then f e else e) tbl = pre @ f ev # post" for f
    using tbl assms(3,4) by (rule one_row_by_key(1))
  have gone: "filter (\<lambda>e. event_id e \<noteq> eid) tbl = pre @ post"
    using tbl assms(3,4) by (rule one_row_by_key(2))
  have del: "handle_event aff now DELETE session json eid tbl
               = ((Message ''Event deleted successfully'', 200), pre @ post)"
    using adm assms(1) gone by (simp add: handle_event_def)
  have put: "handle_event aff now PUT session (Some data) eid tbl
               = ((Message ''Event updated successfully'', 200), pre @ ?upd t d ev # post)"
    if t: "bind_text (sanitize_value (json_get data ''title'')) = Some t"
      and d: "bind_date aff (json_get data ''date'') = Some d" and nn: "d \<noteq> SNull" for t d
    using adm assms(1) t d nn shape[of "?upd t d"] by (simp add: handle_event_def Let_def)
  show "\<exists>pre post. tbl = pre @ ev # post
           \<and> handle_event aff now DELETE session json eid tbl
               = ((Message ''Event deleted successfully'', 200), pre @ post)
           \<and> (\<forall>t d. bind_text (sanitize_value (json_get data ''title'')) = Some t
                    \<and> bind_date aff (json_get data ''date'') = Some d \<and> d \<noteq> SNull \<longrightarrow>
                 handle_event aff now PUT session (Some data) eid tbl
                   = ((Message ''Event updated successfully'', 200),
                      pre @ ?upd t d ev # post))"
    using tbl del put by blast
qed

text \<open>
  C5 (as amended).  For an event id within 64 bits.  If no row has the id: GET answers
  404; with an admin session DELETE answers 200 with a message, and so does PUT for every
  JSON object whose date the driver binds, the table unchanged in both cases; without an
  admin session PUT and DELETE answer 401.  If a row has the id (ids being distinct): GET
  answers 200 with that row; with an admin session DELETE answers 200 with a message and
  removes exactly that row, and PUT answers 200 with a message and rewrites exactly that
  row when the new title and the new date are not null and the date is bound.
\<close>

theorem handle_event_missing_row:
  assumes "int64 eid"
  shows "((\<forall>e \<in> set tbl. event_id e \<noteq> eid) \<longrightarrow>
           handle_event aff now GET session json eid tbl
             = ((Error ''Event not found'', 404), tbl)
           \<and> (py_truthy (dict_get session ''is_admin'') \<longrightarrow>
                (bind_date aff (json_get data ''date'') \<noteq> None \<longrightarrow>
                   handle_event aff now PUT session (Some data) eid tbl
                     = ((Message ''Event updated successfully'', 200), tbl))
                \<and> handle_event aff now DELETE session json eid tbl
                    = ((Message ''Event deleted successfully'', 200), tbl))
           \<and> (\<not> py_truthy (dict_get session ''is_admin'') \<longrightarrow>
                handle_event aff now PUT session json eid tbl
                  = ((Error ''Admin authentication required'', 401), tbl)
                \<and> handle_event aff now DELETE session json eid tbl
                  = ((Error ''Admin authentication required'', 401), tbl)))
       \<and> (ev \<in> set tbl2 \<and> event_id ev = eid \<and> distinct (map event_id tbl2) \<longrightarrow>
            handle_event aff now GET session json eid tbl2 = ((Event_record ev, 200), tbl2)
            \<and> (py_truthy (dict_get session ''is_admin'') \<longrightarrow>
                 (\<exists>pre post. tbl2 = pre @ ev # post
                    \<and> handle_event aff now DELETE session json eid tbl2
                        = ((Message ''Event deleted successfully'', 200), pre @ post)
                    \<and> (\<forall>t d. bind_text (sanitize_value (json_get data ''title'')) = Some t
                             \<and> bind_date aff (json_get data ''date'') = Some d \<and> d \<noteq> SNull \<longrightarrow>
                          handle_event aff now PUT session (Some data) eid tbl2
                            = ((Message ''Event updated successfully'', 200),
                               pre @ ev\<lparr>title := t,
                                        description :=
                                          bind_text (sanitize_value (json_get data ''description'')),
                                        date := d,
                                        time := bind_text (sanitize_value (json_get data ''time'')),
                                        location :=
                                          bind_text (sanitize_value (json_get data ''location'')),
                                        image_url :=
                                          bind_text (sanitize_value (json_get data ''image_url'')),
                                        updated_at := now\<rparr> # post)))))"
proof (intro conjI impI)
  assume "\<forall>e \<in> set tbl. event_id e \<noteq> eid"
  note absent = handle_event_absent[OF assms this]
  show "handle_event aff now GET session json eid tbl = ((Error ''Event not found'', 404), tbl)"
    by (rule absent(1))
  show "handle_event aff now PUT session (Some data) eid tbl
          = ((Message ''Event updated successfully'', 200), tbl)"
    if "py_truthy (dict_get session ''is_admin'')" "bind_date aff (json_get data ''date'') \<noteq> None"
    using that by (rule absent(2))
  show "handle_event aff now DELETE session json eid tbl
          = ((Message ''Event deleted successfully'', 200), tbl)"
    if "py_truthy (dict_get session ''is_admin'')"
    using that by (rule absent(3))
  show "handle_event aff now PUT session json eid tbl
          = ((Error ''Admin authentication required'', 401), tbl)"
    if "\<not> py_truthy (dict_get session ''is_admin'')"
    using that by (rule handle_event_not_admin(1))
  show "handle_event aff now DELETE session json eid tbl
          = ((Error ''Admin authentication required'', 401), tbl)"
    if "\<not> py_truthy (dict_get session ''is_admin'')"
    using that by (rule handle_event_not_admin(2))
next
  assume p: "ev \<in> set tbl2 \<and> event_id ev = eid \<and> distinct (map event_id tbl2)"
  then have p1: "ev \<in> set tbl2" and p2: "event_id ev = eid" and p3: "distinct (map event_id tbl2)"
    by simp_all
  show "handle_event aff now GET session json eid tbl2 = ((Event_record ev, 200), tbl2)"
    using assms p1 p2 p3 by (rule handle_event_present(1))
  show "\<exists>pre post. tbl2 = pre @ ev # post
          \<and> handle_event aff now DELETE session json eid tbl2
              = ((Message ''Event deleted successfully'', 200), pre @ post)
          \<and> (\<forall>t d. bind_text (sanitize_value (json_get data ''title'')) = Some t
                   \<and> bind_date aff (json_get data ''date'') = Some d \<and> d \<noteq> SNull \<longrightarrow>
                handle_event aff now PUT session (Some data) eid tbl2
                  = ((Message ''Event updated successfully'', 200),
                     pre @ ev\<lparr>title := t,
                              description :=
                                bind_text (sanitize_value (json_get data ''description'')),
                              date := d,
                              time := bind_text (sanitize_value (json_get data ''time'')),
                              location :=
                                bind_text (sanitize_value (json_get data ''location'')),
                              image_url :=
                                bind_text (sanitize_value (json_get data ''image_url'')),
                              updated_at := now\<rparr> # post))"
    if "py_truthy (dict_get session ''is_admin'')"
    using assms p1 p2 p3 that by (rule handle_event_present(2))
qed

theorem handle_event_missing_row_witness:
  "handle_event (SText \<circ> case_jsonval py_str id id) ''2025-01-01 00:00:00'' GET [''is_admin'' \<mapsto> PBool True] None 7
      [\<lparr>event_id = 1, title = ''Picnic'', description = None, date = SText ''2025-05-01'', time = Some ''10:00 AM'', location = None, image_url = None, created_at = ''2024-12-01 09:00:00'', updated_at = ''2024-12-01 09:00:00''\<rparr>]
    = ((Error ''Event not found'', 404),
       [\<lparr>event_id = 1, title = ''Picnic'', description = None, date = SText ''2025-05-01'', time = Some ''10:00 AM'', location = None, image_url = None, created_at = ''2024-12-01 09:00:00'', updated_at = ''2024-12-01 09:00:00''\<rparr>])
   \<and> handle_event (SText \<circ> case_jsonval py_str id id) ''2025-01-01 00:00:00'' PUT [''is_admin'' \<mapsto> PBool True]
        (Some [''title'' \<mapsto> JScalar (PStr ''Summer Picnic''), ''date'' \<mapsto> JScalar (PStr ''2025-06-01'')]) 7
      [\<lparr>event_id = 1, title = ''Picnic'', description = None, date = SText ''2025-05-01'', time = Some ''10:00 AM'', location = None, image_url = None, created_at = ''2024-12-01 09:00:00'', updated_at = ''2024-12-01 09:00:00''\<rparr>]
    = ((Message ''Event updated successfully'', 200),
       [\<lparr>event_id = 1, title = ''Picnic'', description = None, date = SText ''2025-05-01'', time = Some ''10:00 AM'', location = None, image_url = None, created_at = ''2024-12-01 09:00:00'', updated_at = ''2024-12-01 09:00:00''\<rparr>])
   \<and> handle_event (SText \<circ> case_jsonval py_str id id) ''2025-01-01 00:00:00'' DELETE [''is_admin'' \<mapsto> PBool True] None 7
      [\<lparr>event_id = 1, title = ''Picnic'', description = None, date = SText ''2025-05-01'', time = Some ''10:00 AM'', location = None, image_url = None, created_at = ''2024-12-01 09:00:00'', updated_at = ''2024-12-01 09:00:00''\<rparr>]
    = ((Message ''Event deleted successfully'', 200),
       [\<lparr>event_id = 1, title = ''Picnic'', description = None, date = SText ''2025-05-01'', time = Some ''10:00 AM'', location = None, image_url = None, created_at = ''2024-12-01 09:00:00'', updated_at = ''2024-12-01 09:00:00''\<rparr>])
   \<and> handle_event (SText \<circ> case_jsonval py_str id id) ''2025-01-01 00:00:00'' DELETE Map.empty None 7
      [\<lparr>event_id = 1, title = ''Picnic'', description = None, date = SText ''2025-05-01'', time = Some ''10:00 AM'', location = None, image_url = None, created_at = ''2024-12-01 09:00:00'', updated_at = ''2024-12-01 09:00:00''\<rparr>]
    = ((Error ''Admin authentication required'', 401),
       [\<lparr>event_id = 1, title = ''Picnic'', description = None, date = SText ''2025-05-01'', time = Some ''10:00 AM'', location = None, image_url = None, created_at = ''2024-12-01 09:00:00'', updated_at = ''2024-12-01 09:00:00''\<rparr>])
   \<and> handle_event (SText \<circ> case_jsonval py_str id id) ''2025-01-01 00:00:00'' GET Map.empty None 1
      [\<lparr>event_id = 1, title = ''Picnic'', description = None, date = SText ''2025-05-01'', time = Some ''10:00 AM'', location = None, image_url = None, created_at = ''2024-12-01 09:00:00'', updated_at = ''2024-12-01 09:00:00''\<rparr>]
    = ((Event_record
          \<lparr>event_id = 1, title = ''Picnic'', description = None, date = SText ''2025-05-01'', time = Some ''10:00 AM'', location = None, image_url = None, created_at = ''2024-12-01 09:00:00'', updated_at = ''2024-12-01 09:00:00''\<rparr>, 200),
       [\<lparr>event_id = 1, title = ''Picnic'', description = None, date = SText ''2025-05-01'', time = Some ''10:00 AM'', location = None, image_url = None, created_at = ''2024-12-01 09:00:00'', updated_at = ''2024-12-01 09:00:00''\<rparr>])
   \<and> (\<exists>pre post.
         [\<lparr>event_id = 1, title = ''Picnic'', description = None, date = SText ''2025-05-01'', time = Some ''10:00 AM'', location = None, image_url = None, created_at = ''2024-12-01 09:00:00'', updated_at = ''2024-12-01 09:00:00''\<rparr>]
           = pre @ \<lparr>event_id = 1, title = ''Picnic'', description = None, date = SText ''2025-05-01'', time = Some ''10:00 AM'', location = None, image_url = None, created_at = ''2024-12-01 09:00:00'', updated_at = ''2024-12-01 09:00:00''\<rparr> # post
         \<and> handle_event (SText \<circ> case_jsonval py_str id id) ''2025-01-01 00:00:00'' DELETE [''is_admin'' \<mapsto> PBool True] None 1
             [\<lparr>event_id = 1, title = ''Picnic'', description = None, date = SText ''2025-05-01'', time = Some ''10:00 AM'', location = None, image_url = None, created_at = ''2024-12-01 09:00:00'', updated_at = ''2024-12-01 09:00:00''\<rparr>]
            = ((Message ''Event deleted successfully'', 200), pre @ post)
         \<and> handle_event (SText \<circ> case_jsonval py_str id id) ''2025-01-01 00:00:00'' PUT [''is_admin'' \<mapsto> PBool True]
             (Some [''title'' \<mapsto> JScalar (PStr ''Summer Picnic''), ''date'' \<mapsto> JScalar (PStr ''2025-06-01'')]) 1
             [\<lparr>event_id = 1, title = ''Picnic'', description = None, date = SText ''2025-05-01'', time = Some ''10:00 AM'', location = None, image_url = None, created_at = ''2024-12-01 09:00:00'', updated_at = ''2024-12-01 09:00:00''\<rparr>]
            = ((Message ''Event updated successfully'', 200),
               pre @ \<lparr>event_id = 1, title = ''Summer Picnic'', description = None, date = SText ''2025-06-01'', time = None, location = None, image_url = None, created_at = ''2024-12-01 09:00:00'', updated_at = ''2025-01-01 00:00:00''\<rparr> # post))"
proof -
  define aff where "aff = (SText \<circ> case_jsonval py_str id id)"
  define e1 where "e1 = \<lparr>event_id = 1, title = ''Picnic'', description = None, date = SText ''2025-05-01'', time = Some ''10:00 AM'', location = None, image_url = None, created_at = ''2024-12-01 09:00:00'', updated_at = ''2024-12-01 09:00:00''\<rparr>"
  define adm :: session where "adm = [''is_admin'' \<mapsto> PBool True]"
  define anon :: session where "anon = Map.empty"
  define body :: jsonbody where "body = [''title'' \<mapsto> JScalar (PStr ''Summer Picnic''), ''date'' \<mapsto> JScalar (PStr ''2025-06-01'')]"
  have i7: "int64 7" and i1: "int64 1" by (simp_all add: int64_def)
  have absent: "\<forall>e \<in> set [e1]. event_id e \<noteq> 7" by (simp add: e1_def)
  have a: "py_truthy (dict_get adm ''is_admin'')" by (simp add: adm_def dict_get_def)
  have n: "\<not> py_truthy (dict_get anon ''is_admin'')" by (simp add: anon_def dict_get_def)
  have bd: "bind_date aff (json_get body ''date'') = Some (SText ''2025-06-01'')"
    by (simp add: aff_def body_def json_get_def)
  then have bd': "bind_date aff (json_get body ''date'') \<noteq> None" by simp
  have bt: "bind_text (sanitize_value (json_get body ''title'')) = Some ''Summer Picnic''"
    by (simp add: body_def json_get_def sanitize_input_def replace_def)
  have none: "bind_text (sanitize_value (json_get body ''description'')) = None"
    "bind_text (sanitize_value (json_get body ''time'')) = None"
    "bind_text (sanitize_value (json_get body ''location'')) = None"
    "bind_text (sanitize_value (json_get body ''image_url'')) = None"
    by (simp_all add: body_def json_get_def sanitize_input_def)
  have present: "e1 \<in> set [e1] \<and> event_id e1 = 1 \<and> distinct (map event_id [e1])"
    by (simp add: e1_def)
  have nn: "SText ''2025-06-01'' \<noteq> SNull" by simp
  note A = handle_event_missing_row[OF i7, of "[e1]" aff "''2025-01-01 00:00:00''" adm None body e1 "[e1]"]
  note N = handle_event_missing_row[OF i7, of "[e1]" aff "''2025-01-01 00:00:00''" anon None body e1 "[e1]"]
  note P = handle_event_missing_row[OF i1, of "[]" aff "''2025-01-01 00:00:00''" anon None body e1 "[e1]"]
  note Q = handle_event_missing_row[OF i1, of "[]" aff "''2025-01-01 00:00:00''" adm None body e1 "[e1]"]
  have 1: "handle_event aff ''2025-01-01 00:00:00'' GET adm None 7 [e1] = ((Error ''Event not found'', 404), [e1])"
    using A absent by blast
  have 2: "handle_event aff ''2025-01-01 00:00:00'' PUT adm (Some body) 7 [e1]
             = ((Message ''Event updated successfully'', 200), [e1])"
    using A absent a bd' by blast
  have 3: "handle_event aff ''2025-01-01 00:00:00'' DELETE adm None 7 [e1]
             = ((Message ''Event deleted successfully'', 200), [e1])"
    using A absent a by blast
  have 4: "handle_event aff ''2025-01-01 00:00:00'' DELETE anon None 7 [e1]
             = ((Error ''Admin authentication required'', 401), [e1])"
    using N absent n by blast
  have 5: "handle_event aff ''2025-01-01 00:00:00'' GET anon None 1 [e1] = ((Event_record e1, 200), [e1])"
    using P present by blast
  obtain pre post where pp: "[e1] = pre @ e1 # post"
    and del: "handle_event aff ''2025-01-01 00:00:00'' DELETE adm None 1 [e1]
               = ((Message ''Event deleted successfully'', 200), pre @ post)"
    and put: "\<forall>t d. bind_text (sanitize_value (json_get body ''title'')) = Some t
                 \<and> bind_date aff (json_get body ''date'') = Some d \<and> d \<noteq> SNull \<longrightarrow>
              handle_event aff ''2025-01-01 00:00:00'' PUT adm (Some body) 1 [e1]
                = ((Message ''Event updated successfully'', 200),
                   pre @ e1\<lparr>title := t,
                            description := bind_text (sanitize_value (json_get body ''description'')),
                            date := d,
                            time := bind_text (sanitize_value (json_get body ''time'')),
                            location := bind_text (sanitize_value (json_get body ''location'')),
                            image_url := bind_text (sanitize_value (json_get body ''image_url'')),
                            updated_at := ''2025-01-01 00:00:00''\<rparr> # post)"
    using Q present a by blast
  have "handle_event aff ''2025-01-01 00:00:00'' PUT adm (Some body) 1 [e1]
          = ((Message ''Event updated successfully'', 200),
             pre @ e1\<lparr>title := ''Summer Picnic'',
                      description := bind_text (sanitize_value (json_get body ''description'')),
                      date := SText ''2025-06-01'',
                      time := bind_text (sanitize_value (json_get body ''time'')),
                      location := bind_text (sanitize_value (json_get body ''location'')),
                      image_url := bind_text (sanitize_value (json_get body ''image_url'')),
                      updated_at := ''2025-01-01 00:00:00''\<rparr> # post)"
    using put bt bd nn by blast
  then have 6: "handle_event aff ''2025-01-01 00:00:00'' PUT adm (Some body) 1 [e1]
          = ((Message ''Event updated successfully'', 200),
             pre @ \<lparr>event_id = 1, title = ''Summer Picnic'', description = None, date = SText ''2025-06-01'', time = None, location = None, image_url = None, created_at = ''2024-12-01 09:00:00'', updated_at = ''2025-01-01 00:00:00''\<rparr> # post)"
    unfolding none by (simp add: e1_def)
  from 1 2 3 4 5 pp del 6 show ?thesis
    unfolding aff_def e1_def adm_def anon_def body_def by blast
qed

text \<open>
  DELETE and PUT on an id that is not in the (empty) table, with an admin session, answer
  200 with a message, not 404; GET on the absent id \<open>2 ^ 63\<close> answers 500, not 404.
\<close>

theorem handle_event_absent_id_accepted:
  "handle_event (SText \<circ> case_jsonval py_str id id) ''2025-01-01 00:00:00'' DELETE [''is_admin'' \<mapsto> PBool True] None 7 []
     = ((Message ''Event deleted successfully'', 200), [])
   \<and> handle_event (SText \<circ> case_jsonval py_str id id) ''2025-01-01 00:00:00'' PUT [''is_admin'' \<mapsto> PBool True]
        (Some [''title'' \<mapsto> JScalar (PStr ''Summer Picnic''), ''date'' \<mapsto> JScalar (PStr ''2025-06-01'')]) 7 []
     = ((Message ''Event updated successfully'', 200), [])
   \<and> handle_event (SText \<circ> case_jsonval py_str id id) ''2025-01-01 00:00:00'' GET [''is_admin'' \<mapsto> PBool True] None 9223372036854775808 []
     = ((Error ''Failed to fetch event'', 500), [])"
  by (simp add: handle_event_def dict_get_def json_get_def int64_def sanitize_input_def
        replace_def)

section \<open>Properties of the events listing\<close>

lemma real_le_total: "real_le a b \<or> real_le b a"
  by (cases a; cases b) auto

lemma real_le_trans: "real_le a b \<Longrightarrow> real_le b c \<Longrightarrow> real_le a c"
  by (cases a; cases b; cases c) auto

lemma sql_le_total: "sql_le a b \<or> sql_le b a"
  using real_le_total[of "numeric_value a" "numeric_value b"]
  by (auto simp: sql_le_def)

lemma sql_le_trans:
  assumes "sql_le a b" and "sql_le b c"
  shows "sql_le a c"
proof (cases "storage_class a = storage_class b \<and> storage_class b = storage_class c")
  case False
  with assms show ?thesis by (auto simp: sql_le_def split: if_splits)
next
  case True
  show ?thesis
  proof (cases "storage_class a = 1")
    case num: True
    with True assms have "real_le (numeric_value a) (numeric_value b)"
      and "real_le (numeric_value b) (numeric_value c)"
      by (auto simp: sql_le_def)
    then have "real_le (numeric_value a) (numeric_value c)" by (rule real_le_trans)
    with True num show ?thesis by (simp add: sql_le_def)
  next
    case False
    with True assms have "text_value a \<le> text_value b" and "text_value b \<le> text_value c"
      by (auto simp: sql_le_def)
    then have "text_value a \<le> text_value c" by (rule order_trans)
    with True False show ?thesis by (simp add: sql_le_def)
  qed
qed

lemma text_le_total: "text_le a b \<or> text_le b a"
  by (cases a; cases b) auto

lemma text_le_trans: "text_le a b \<Longrightarrow> text_le b c \<Longrightarrow> text_le a c"
  by (cases a; cases b; cases c) auto

lemma order_by_total: "order_by_date_time a b \<or> order_by_date_time b a"
  using sql_le_total[of "date a" "date b"] text_le_total[of "time a" "time b"]
  by (auto simp: order_by_date_time_def)

lemma order_by_trans:
  assumes ab: "order_by_date_time a b" and bc: "order_by_date_time b c"
  shows "order_by_date_time a c"
proof -
  let ?le = "\<lambda>x y. sql_le (date x) (date y)"
  have lab: "?le a b" using ab sql_le_total[of "date a" "date b"]
    by (auto simp: order_by_date_time_def split: if_splits)
  have lbc: "?le b c" using bc sql_le_total[of "date b" "date c"]
    by (auto simp: order_by_date_time_def split: if_splits)
  have lac: "?le a c" using lab lbc by (rule sql_le_trans)
  show ?thesis
  proof (cases "?le c a")
    case False
    with lac show ?thesis by (simp add: order_by_date_time_def)
  next
    case True
    have lba: "?le b a" using lbc True by (rule sql_le_trans)
    have lcb: "?le c b" using True lab by (rule sql_le_trans)
    have "text_le (time a) (time b)" using ab lab lba by (simp add: order_by_date_time_def)
    moreover have "text_le (time b) (time c)" using bc lbc lcb by (simp add: order_by_date_time_def)
    ultimately have "text_le (time a) (time c)" by (rule text_le_trans)
    with lac True show ?thesis by (simp add: order_by_date_time_def)
  qed
qed

lemma set_insert_by: "set (insert_by le x ys) = insert x (set ys)"
  by (induction ys) auto

lemma length_insert_by: "length (insert_by le x ys) = Suc (length ys)"
  by (induction ys) auto

lemma sorted_insert_by:
  assumes tot: "\<And>a b. le a b \<or> le b a" and tr: "\<And>a b c. le a b \<Longrightarrow> le b c \<Longrightarrow> le a c"
  shows "sorted_wrt le ys \<Longrightarrow> sorted_wrt le (insert_by le x ys)"
proof (induction ys)
  case Nil then show ?case by simp
next
  case (Cons y ys)
  show ?case
  proof (cases "le x y")
    case True
    then have "\<forall>z \<in> set ys. le x z" using Cons.prems tr by auto
    with True Cons.prems show ?thesis by simp
  next
    case False
    then have "le y x" using tot by blast
    with False Cons show ?thesis by (auto simp: set_insert_by)
  qed
qed

lemma set_sort_by: "set (sort_by le xs) = set xs"
  by (induction xs) (auto simp: sort_by_def set_insert_by)

lemma length_sort_by: "length (sort_by le xs) = length xs"
  by (induction xs) (auto simp: sort_by_def length_insert_by)

lemma sorted_sort_by:
  assumes tot: "\<And>a b. le a b \<or> le b a" and tr: "\<And>a b c. le a b \<Longrightarrow> le b c \<Longrightarrow> le a c"
  shows "sorted_wrt le (sort_by le xs)"
proof (induction xs)
  case Nil then show ?case by (simp add: sort_by_def)
next
  case (Cons x xs)
  have "sort_by le (x # xs) = insert_by le x (sort_by le xs)" by (simp add: sort_by_def)
  then show ?case using sorted_insert_by[of le, OF tot tr Cons.IH] by simp
qed

lemma where_upcoming_iff: "where_upcoming today v = (\<exists>d. v = SText d \<and> today \<le> d)"
  by (cases v) (auto simp: sql_le_def)

lemma order_by_text:
  "order_by_date_time a b \<Longrightarrow> date a = SText da \<Longrightarrow> date b = SText db \<Longrightarrow>
   da \<le> db \<and> (da = db \<longrightarrow> text_le (time a) (time b))"
  by (auto simp: order_by_date_time_def sql_le_def split: if_splits)

lemma select_upcoming_set:
  "e \<in> set (select_upcoming today tbl) \<Longrightarrow> e \<in> set tbl \<and> (\<exists>d. date e = SText d \<and> today \<le> d)"
proof -
  assume "e \<in> set (select_upcoming today tbl)"
  then have "e \<in> set (sort_by order_by_date_time (filter (\<lambda>e. where_upcoming today (date e)) tbl))"
    unfolding select_upcoming_def by (rule in_set_takeD)
  then show ?thesis by (simp add: set_sort_by where_upcoming_iff)
qed

lemma select_upcoming_sorted: "sorted_wrt order_by_date_time (select_upcoming today tbl)"
proof -
  have "sorted_wrt order_by_date_time
          (sort_by order_by_date_time (filter (\<lambda>e. where_upcoming today (date e)) tbl))"
    using order_by_total order_by_trans by (rule sorted_sort_by)
  then show ?thesis unfolding select_upcoming_def by (rule sorted_wrt_take)
qed

text \<open>
  C10 (as amended).  For every events table, the listing answers 200 with rows of the
  table whose stored date is a text not below the text of today's date, byte by byte; for
  any two rows of the answer the earlier one has the smaller date text, or the same date
  text and a time text that is not greater byte by byte (a \<^verbatim>\<open>NULL\<close> time first); the
  answer has at most 50 rows.
\<close>

theorem upcoming_events_listing:
  "handle_events_GET today tbl = (Event_list (select_upcoming today tbl), 200)
   \<and> (\<forall>e \<in> set (select_upcoming today tbl). e \<in> set tbl \<and> (\<exists>d. date e = SText d \<and> today \<le> d))
   \<and> sorted_wrt order_by_date_time (select_upcoming today tbl)
   \<and> (\<forall>i j. i < j \<and> j < length (select_upcoming today tbl) \<longrightarrow>
        (\<exists>di dj. date (select_upcoming today tbl ! i) = SText di
                \<and> date (select_upcoming today tbl ! j) = SText dj
                \<and> di \<le> dj
                \<and> (di = dj \<longrightarrow> text_le (time (select_upcoming today tbl ! i))
                                         (time (select_upcoming today tbl ! j)))))
   \<and> length (select_upcoming today tbl) \<le> 50"
proof (intro conjI ballI allI impI)
  show "handle_events_GET today tbl = (Event_list (select_upcoming today tbl), 200)"
    by (simp add: handle_events_GET_def)
next
  fix e assume "e \<in> set (select_upcoming today tbl)"
  then show "e \<in> set tbl" "\<exists>d. date e = SText d \<and> today \<le> d"
    using select_upcoming_set by blast+
next
  show "sorted_wrt order_by_date_time (select_upcoming today tbl)"
    by (rule select_upcoming_sorted)
next
  fix i j
  let ?out = "select_upcoming today tbl"
  assume ij: "i < j \<and> j < length ?out"
  then have "order_by_date_time (?out ! i) (?out ! j)"
    using select_upcoming_sorted[of today tbl] by (simp add: sorted_wrt_iff_nth_less)
  moreover obtain di where di: "date (?out ! i) = SText di"
    using select_upcoming_set[of "?out ! i" today tbl] ij by auto
  moreover obtain dj where dj: "date (?out ! j) = SText dj"
    using select_upcoming_set[of "?out ! j" today tbl] ij by auto
  ultimately have "di \<le> dj \<and> (di = dj \<longrightarrow> text_le (time (?out ! i)) (time (?out ! j)))"
    by (rule order_by_text)
  with di dj
  show "\<exists>di dj. date (?out ! i) = SText di \<and> date (?out ! j) = SText dj \<and> di \<le> dj
          \<and> (di = dj \<longrightarrow> text_le (time (?out ! i)) (time (?out ! j)))"
    by blast
next
  show "length (select_upcoming today tbl) \<le> 50" by (simp add: select_upcoming_def)
qed

lemma select_upcoming_length:
  "length (select_upcoming today tbl)
     = min 50 (length (filter (\<lambda>e. where_upcoming today (date e)) tbl))"
  by (simp add: select_upcoming_def length_sort_by)

theorem upcoming_events_listing_witness:
  "select_upcoming ''2025-01-01''
      [\<lparr>event_id = 1, title = ''Community Outreach'', description = None, date = SText ''2024-12-15'', time = Some ''10:00'', location = None, image_url = None, created_at = ''2024-12-01 09:00:00'', updated_at = ''2024-12-01 09:00:00''\<rparr>,
       \<lparr>event_id = 2, title = ''Youth Winter Retreat'', description = None, date = SText ''2025-01-10'', time = Some ''18:00'', location = None, image_url = None, created_at = ''2024-12-01 09:00:00'', updated_at = ''2024-12-01 09:00:00''\<rparr>,
       \<lparr>event_id = 3, title = ''New Year Prayer Meeting'', description = None, date = SText ''2025-01-01'', time = Some ''22:00'', location = None, image_url = None, created_at = ''2024-12-01 09:00:00'', updated_at = ''2024-12-01 09:00:00''\<rparr>,
       \<lparr>event_id = 4, title = ''New Year Breakfast'', description = None, date = SText ''2025-01-01'', time = Some ''08:30'', location = None, image_url = None, created_at = ''2024-12-01 09:00:00'', updated_at = ''2024-12-01 09:00:00''\<rparr>]
     = [\<lparr>event_id = 4, title = ''New Year Breakfast'', description = None, date = SText ''2025-01-01'', time = Some ''08:30'', location = None, image_url = None, created_at = ''2024-12-01 09:00:00'', updated_at = ''2024-12-01 09:00:00''\<rparr>,
        \<lparr>event_id = 3, title = ''New Year Prayer Meeting'', description = None, date = SText ''2025-01-01'', time = Some ''22:00'', location = None, image_url = None, created_at = ''2024-12-01 09:00:00'', updated_at = ''2024-12-01 09:00:00''\<rparr>,
        \<lparr>event_id = 2, title = ''Youth Winter Retreat'', description = None, date = SText ''2025-01-10'', time = Some ''18:00'', location = None, image_url = None, created_at = ''2024-12-01 09:00:00'', updated_at = ''2024-12-01 09:00:00''\<rparr>]
   \<and> (\<exists>di dj. SText ''2025-01-01'' = SText di \<and> SText ''2025-01-10'' = SText dj \<and> di \<le> dj)
   \<and> (\<exists>di dj. SText ''2025-01-01'' = SText di \<and> SText ''2025-01-01'' = SText dj \<and> di \<le> dj
         \<and> (di = dj \<longrightarrow> text_le (Some ''08:30'') (Some ''22:00'')))
   \<and> length (select_upcoming ''2025-01-01'' (map (\<lambda>i. \<lparr>event_id = int i, title = ''Service'', description = None, date = SText ''2025-06-01'', time = None, location = None, image_url = None, created_at = ''2024-12-01 09:00:00'', updated_at = ''2024-12-01 09:00:00''\<rparr>) [0..<60])) = 50"
proof -
  define tbl where "tbl = [\<lparr>event_id = 1, title = ''Community Outreach'', description = None, date = SText ''2024-12-15'', time = Some ''10:00'', location = None, image_url = None, created_at = ''2024-12-01 09:00:00'', updated_at = ''2024-12-01 09:00:00''\<rparr>,
       \<lparr>event_id = 2, title = ''Youth Winter Retreat'', description = None, date = SText ''2025-01-10'', time = Some ''18:00'', location = None, image_url = None, created_at = ''2024-12-01 09:00:00'', updated_at = ''2024-12-01 09:00:00''\<rparr>,
       \<lparr>event_id = 3, title = ''New Year Prayer Meeting'', description = None, date = SText ''2025-01-01'', time = Some ''22:00'', location = None, image_url = None, created_at = ''2024-12-01 09:00:00'', updated_at = ''2024-12-01 09:00:00''\<rparr>,
       \<lparr>event_id = 4, title = ''New Year Breakfast'', description = None, date = SText ''2025-01-01'', time = Some ''08:30'', location = None, image_url = None, created_at = ''2024-12-01 09:00:00'', updated_at = ''2024-12-01 09:00:00''\<rparr>]"
  define e2 where "e2 = \<lparr>event_id = 2, title = ''Youth Winter Retreat'', description = None, date = SText ''2025-01-10'', time = Some ''18:00'', location = None, image_url = None, created_at = ''2024-12-01 09:00:00'', updated_at = ''2024-12-01 09:00:00''\<rparr>"
  define e3 where "e3 = \<lparr>event_id = 3, title = ''New Year Prayer Meeting'', description = None, date = SText ''2025-01-01'', time = Some ''22:00'', location = None, image_url = None, created_at = ''2024-12-01 09:00:00'', updated_at = ''2024-12-01 09:00:00''\<rparr>"
  define e4 where "e4 = \<lparr>event_id = 4, title = ''New Year Breakfast'', description = None, date = SText ''2025-01-01'', time = Some ''08:30'', location = None, image_url = None, created_at = ''2024-12-01 09:00:00'', updated_at = ''2024-12-01 09:00:00''\<rparr>"
  define big where "big = map (\<lambda>i. \<lparr>event_id = int i, title = ''Service'', description = None, date = SText ''2025-06-01'', time = None, location = None, image_url = None, created_at = ''2024-12-01 09:00:00'', updated_at = ''2024-12-01 09:00:00''\<rparr>) [0..<60]"
  have v: "select_upcoming ''2025-01-01'' tbl = [e4, e3, e2]"
    by (simp add: tbl_def e2_def e3_def e4_def select_upcoming_def sort_by_def
          order_by_date_time_def sql_le_def)
  have nth: "select_upcoming ''2025-01-01'' tbl ! 0 = e4"
    "select_upcoming ''2025-01-01'' tbl ! 1 = e3"
    "select_upcoming ''2025-01-01'' tbl ! 2 = e2"
    by (simp_all add: v)
  have len: "length (select_upcoming ''2025-01-01'' tbl) = 3" by (simp add: v)
  note inst = upcoming_events_listing[of "''2025-01-01''" tbl]
  have "(0::nat) < 1 \<and> 1 < length (select_upcoming ''2025-01-01'' tbl)" by (simp add: len)
  with inst have "\<exists>di dj. date (select_upcoming ''2025-01-01'' tbl ! 0) = SText di
      \<and> date (select_upcoming ''2025-01-01'' tbl ! 1) = SText dj \<and> di \<le> dj
      \<and> (di = dj \<longrightarrow> text_le (time (select_upcoming ''2025-01-01'' tbl ! 0))
                               (time (select_upcoming ''2025-01-01'' tbl ! 1)))"
    by blast
  then have a: "\<exists>di dj. SText ''2025-01-01'' = SText di \<and> SText ''2025-01-01'' = SText dj \<and> di \<le> dj
         \<and> (di = dj \<longrightarrow> text_le (Some ''08:30'') (Some ''22:00''))"
    unfolding nth by (simp add: e3_def e4_def)
  have "(1::nat) < 2 \<and> 2 < length (select_upcoming ''2025-01-01'' tbl)" by (simp add: len)
  with inst have "\<exists>di dj. date (select_upcoming ''2025-01-01'' tbl ! 1) = SText di
      \<and> date (select_upcoming ''2025-01-01'' tbl ! 2) = SText dj \<and> di \<le> dj
      \<and> (di = dj \<longrightarrow> text_le (time (select_upcoming ''2025-01-01'' tbl ! 1))
                               (time (select_upcoming ''2025-01-01'' tbl ! 2)))"
    by blast
  then have b: "\<exists>di dj. SText ''2025-01-01'' = SText di \<and> SText ''2025-01-10'' = SText dj \<and> di \<le> dj"
    unfolding nth by (auto simp: e2_def e3_def)
  have up: "length (select_upcoming ''2025-01-01'' big) \<le> 50"
    using upcoming_events_listing[of "''2025-01-01''" big] by blast
  have "length (select_upcoming ''2025-01-01'' big) = 50"
    by (simp add: select_upcoming_length big_def filter_map o_def sql_le_def)
  with v a b show ?thesis
    unfolding tbl_def e2_def e3_def e4_def big_def by blast
qed

text \<open>
  Three events of one day, at 9:00 AM, 10:00 AM and 7:00 PM, are listed in the order
  10:00 AM, 7:00 PM, 9:00 AM; and on 2026-11-04 an event whose date was stored as
  \<^verbatim>\<open>Dec 25, 2020\<close> is listed as upcoming.
\<close>

theorem upcoming_events_text_order:
  "map event_id (select_upcoming ''2026-11-04''
      [\<lparr>event_id = 1, title = ''Morning Prayer'', description = None, date = SText ''2026-12-24'',
        time = Some ''9:00 AM'', location = None, image_url = None,
        created_at = ''2026-11-01 09:00:00'', updated_at = ''2026-11-01 09:00:00''\<rparr>,
       \<lparr>event_id = 2, title = ''Family Service'', description = None, date = SText ''2026-12-24'',
        time = Some ''10:00 AM'', location = None, image_url = None,
        created_at = ''2026-11-01 09:00:00'', updated_at = ''2026-11-01 09:00:00''\<rparr>,
       \<lparr>event_id = 3, title = ''Christmas Eve Service'', description = None,
        date = SText ''2026-12-24'',
        time = Some ''7:00 PM'', location = None, image_url = None,
        created_at = ''2026-11-01 09:00:00'', updated_at = ''2026-11-01 09:00:00''\<rparr>])
     = [2, 3, 1]
   \<and> map event_id (select_upcoming ''2026-11-04''
      [\<lparr>event_id = 4, title = ''Christmas Day'', description = None,
        date = SText ''Dec 25, 2020'',
        time = Some ''10:00 AM'', location = None, image_url = None,
        created_at = ''2020-11-01 09:00:00'', updated_at = ''2020-11-01 09:00:00''\<rparr>])
     = [4]"
  by (simp add: select_upcoming_def sort_by_def order_by_date_time_def sql_le_def)

section \<open>Properties of the newsletter subscription\<close>

lemma validate_email_nonempty: "validate_email s \<Longrightarrow> s \<noteq> []"
  by (auto simp: validate_email_def pattern_def Plus_def AtLeast2_def)

lemma fold_max_lower: "(a::int) \<le> fold max xs a"
proof (induction xs arbitrary: a)
  case Nil then show ?case by simp
next
  case (Cons x xs)
  have "a \<le> max x a" by simp
  also have "max x a \<le> fold max xs (max x a)" by (rule Cons.IH)
  finally show ?case by simp
qed

lemma fold_max_upper: "x \<in> set xs \<Longrightarrow> (x::int) \<le> fold max xs a"
proof (induction xs arbitrary: a)
  case Nil then show ?case by simp
next
  case (Cons y ys)
  show ?case
  proof (cases "x = y")
    case True
    have "x \<le> max y a" using True by simp
    also have "max y a \<le> fold max ys (max y a)" by (rule fold_max_lower)
    finally show ?thesis by simp
  next
    case False
    then have "x \<in> set ys" using Cons.prems by simp
    then have "x \<le> fold max ys (max y a)" by (rule Cons.IH)
    then show ?thesis by simp
  qed
qed

lemma next_id_fresh: "next_id t \<notin> subscriber_id ` set (rows t)"
proof
  assume "next_id t \<in> subscriber_id ` set (rows t)"
  then have "next_id t \<in> set (map subscriber_id (rows t))" by simp
  then have "next_id t \<le> fold max (map subscriber_id (rows t)) (sequence t)"
    by (rule fold_max_upper)
  then show False by (simp add: next_id_def)
qed

lemma handle_newsletter_body_valid:
  assumes "json_get data ''email'' = JScalar (PStr addr)" and "validate_email addr"
  shows "handle_newsletter_body now (Some data) t =
     (case find (\<lambda>r. email r = addr) (rows t) of
        Some existing \<Rightarrow>
          if is_active existing then ((Message ''Email already subscribed'', 200), t)
          else ((Message ''Subscription reactivated successfully'', 200),
                t\<lparr>rows := map (\<lambda>r. if email r = addr then r\<lparr>is_active := True\<rparr> else r)
                               (rows t)\<rparr>)
      | None \<Rightarrow>
          if \<not> int64 (next_id t) then ((Error ''Failed to subscribe to newsletter'', 500), t)
          else
            ((Message ''Successfully subscribed to newsletter'', 201),
             t\<lparr>rows := rows t @ [\<lparr>subscriber_id = next_id t, email = addr,
                                   date_subscribed = now, is_active = True\<rparr>],
               sequence := next_id t\<rparr>))"
proof -
  have ne: "addr \<noteq> []" using assms(2) by (rule validate_email_nonempty)
  show ?thesis
    unfolding handle_newsletter_body_def using assms ne by simp
qed

lemma find_reactivated:
  "find (\<lambda>r. email r = addr) (map (\<lambda>r. if email r = addr then r\<lparr>is_active := True\<rparr> else r) xs)
     = map_option (\<lambda>r. r\<lparr>is_active := True\<rparr>) (find (\<lambda>r. email r = addr) xs)"
  by (induction xs) simp_all

lemma find_append_None: "find P xs = None \<Longrightarrow> find P (xs @ ys) = find P ys"
  by (induction xs) (simp_all split: if_splits)

lemma handle_newsletter_body_again:
  assumes "json_get data ''email'' = JScalar (PStr addr)" and "validate_email addr"
    and room: "(\<exists>r \<in> set (rows t). email r = addr) \<or> int64 (next_id t)"
  shows "handle_newsletter_body now2 (Some data) (snd (handle_newsletter_body now (Some data) t))
           = ((Message ''Email already subscribed'', 200),
              snd (handle_newsletter_body now (Some data) t))"
proof (cases "find (\<lambda>r. email r = addr) (rows t)")
  case None
  let ?new = "\<lparr>subscriber_id = next_id t, email = addr, date_subscribed = now, is_active = True\<rparr>"
  let ?t' = "t\<lparr>rows := rows t @ [?new], sequence := next_id t\<rparr>"
  have "\<not> (\<exists>r \<in> set (rows t). email r = addr)"
    using None by (simp add: find_None_iff)
  then have i: "int64 (next_id t)" using room by blast
  have 1: "snd (handle_newsletter_body now (Some data) t) = ?t'"
    using None i by (simp add: handle_newsletter_body_valid[OF assms(1,2)])
  have "find (\<lambda>r. email r = addr) (rows ?t') = Some ?new"
    using find_append_None[OF None, of "[?new]"] by simp
  then have "handle_newsletter_body now2 (Some data) ?t'
               = ((Message ''Email already subscribed'', 200), ?t')"
    by (simp add: handle_newsletter_body_valid[OF assms(1,2)])
  with 1 show ?thesis by simp
next
  case (Some existing)
  show ?thesis
  proof (cases "is_active existing")
    case True
    have 1: "snd (handle_newsletter_body now (Some data) t) = t"
      using Some True by (simp add: handle_newsletter_body_valid[OF assms(1,2)])
    have "handle_newsletter_body now2 (Some data) t
            = ((Message ''Email already subscribed'', 200), t)"
      using Some True by (simp add: handle_newsletter_body_valid[OF assms(1,2)])
    with 1 show ?thesis by simp
  next
    case False
    let ?t' = "t\<lparr>rows := map (\<lambda>r. if email r = addr then r\<lparr>is_active := True\<rparr> else r) (rows t)\<rparr>"
    have 1: "snd (handle_newsletter_body now (Some data) t) = ?t'"
      using Some False by (simp add: handle_newsletter_body_valid[OF assms(1,2)])
    have "find (\<lambda>r. email r = addr) (rows ?t') = Some (existing\<lparr>is_active := True\<rparr>)"
      using Some by (simp add: find_reactivated)
    then have "handle_newsletter_body now2 (Some data) ?t'
                 = ((Message ''Email already subscribed'', 200), ?t')"
      by (simp add: handle_newsletter_body_valid[OF assms(1,2)])
    with 1 show ?thesis by simp
  qed
qed

lemma handle_newsletter_admitted:
  "rate_limit cfg ''newsletter'' remote_addr current_time limits = (Call_handler, limits') \<Longrightarrow>
   handle_newsletter cfg remote_addr current_time now json (limits, t)
     = (Response (fst (handle_newsletter_body now json t)),
        (limits', snd (handle_newsletter_body now json t)))"
  by (simp add: handle_newsletter_def split: prod.split)

lemma handle_newsletter_rejected:
  "rate_limit cfg ''newsletter'' remote_addr current_time limits = (Respond resp, limits') \<Longrightarrow>
   handle_newsletter cfg remote_addr current_time now json (limits, t)
     = (Response resp, (limits', t))"
  by (simp add: handle_newsletter_def)

text \<open>
  C6 (as amended).  Subscribing with a valid email, the emails of the table being distinct
  (the column is \<^verbatim>\<open>UNIQUE\<close>).  When the rate limiter admits the request: if a row
  with that email is active, the answer is 200 and the newsletter table is unchanged; if a
  row with that email is inactive, the answer is 200 and exactly that row is changed, to
  active; if no row has that email and the next id is a 64-bit integer, the answer is 201
  and one row is appended, active, with that email and a new id; and, a row having that
  email or the next id being a 64-bit integer, a second subscription that the limiter
  admits as well answers 200 ``already subscribed'' and leaves the newsletter table as the
  first one left it.  When the rate limiter rejects the request, the answer is the
  limiter's and the newsletter table is unchanged.
\<close>

theorem newsletter_subscribe_cases:
  assumes e: "json_get data ''email'' = JScalar (PStr addr)" and v: "validate_email addr"
    and dist: "distinct (map email (rows t))"
  shows "(rate_limit cfg ''newsletter'' remote_addr current_time limits = (Call_handler, limits') \<longrightarrow>
            ((\<exists>r \<in> set (rows t). email r = addr \<and> is_active r) \<longrightarrow>
               handle_newsletter cfg remote_addr current_time now (Some data) (limits, t)
                 = (Response (Message ''Email already subscribed'', 200), (limits', t)))
          \<and> ((\<exists>r \<in> set (rows t). email r = addr \<and> \<not> is_active r) \<longrightarrow>
               (\<exists>pre r post. rows t = pre @ r # post \<and> email r = addr \<and> \<not> is_active r
                  \<and> handle_newsletter cfg remote_addr current_time now (Some data) (limits, t)
                      = (Response (Message ''Subscription reactivated successfully'', 200),
                         (limits', t\<lparr>rows := pre @ r\<lparr>is_active := True\<rparr> # post\<rparr>))))
          \<and> ((\<forall>r \<in> set (rows t). email r \<noteq> addr) \<and> int64 (next_id t) \<longrightarrow>
               (\<exists>new. email new = addr \<and> is_active new
                  \<and> subscriber_id new \<notin> subscriber_id ` set (rows t)
                  \<and> handle_newsletter cfg remote_addr current_time now (Some data) (limits, t)
                      = (Response (Message ''Successfully subscribed to newsletter'', 201),
                         (limits', t\<lparr>rows := rows t @ [new], sequence := subscriber_id new\<rparr>))))
          \<and> ((\<exists>r \<in> set (rows t). email r = addr) \<or> int64 (next_id t) \<longrightarrow>
              (\<forall>limits''.
                rate_limit cfg ''newsletter'' remote_addr current_time2 limits'
                  = (Call_handler, limits'') \<longrightarrow>
                handle_newsletter cfg remote_addr current_time2 now2 (Some data)
                    (snd (handle_newsletter cfg remote_addr current_time now (Some data) (limits, t)))
                  = (Response (Message ''Email already subscribed'', 200),
                     (limits'',
                      snd (snd (handle_newsletter cfg remote_addr current_time now (Some data)
                                  (limits, t))))))))
       \<and> (rate_limit cfg ''newsletter'' remote_addr current_time limits = (Respond resp, limits') \<longrightarrow>
            handle_newsletter cfg remote_addr current_time now (Some data) (limits, t)
              = (Response resp, (limits', t)))"
proof (intro conjI impI allI)
  assume adm: "rate_limit cfg ''newsletter'' remote_addr current_time limits = (Call_handler, limits')"
  note run = handle_newsletter_admitted[OF adm, of now "Some data" t]
  note body = handle_newsletter_body_valid[OF e v, of now t]
  {
    assume "\<exists>r \<in> set (rows t). email r = addr \<and> is_active r"
    then obtain r where r: "r \<in> set (rows t)" "email r = addr" "is_active r" by blast
    have "find (\<lambda>r. email r = addr) (rows t) = Some r"
      using r(1) r(2) dist by (rule find_by_key)
    then show "handle_newsletter cfg remote_addr current_time now (Some data) (limits, t)
                 = (Response (Message ''Email already subscribed'', 200), (limits', t))"
      using r(3) by (simp add: run body)
  }
  {
    assume "\<exists>r \<in> set (rows t). email r = addr \<and> \<not> is_active r"
    then obtain r where r: "r \<in> set (rows t)" "email r = addr" "\<not> is_active r" by blast
    have f: "find (\<lambda>r. email r = addr) (rows t) = Some r"
      using r(1) r(2) dist by (rule find_by_key)
    from r(1) obtain pre post where pp: "rows t = pre @ r # post"
      by (auto dest: split_list)
    have m: "map (\<lambda>r. if email r = addr then r\<lparr>is_active := True\<rparr> else r) (rows t)
               = pre @ r\<lparr>is_active := True\<rparr> # post"
      using pp r(2) dist by (rule one_row_by_key(1))
    have "handle_newsletter cfg remote_addr current_time now (Some data) (limits, t)
            = (Response (Message ''Subscription reactivated successfully'', 200),
               (limits', t\<lparr>rows := pre @ r\<lparr>is_active := True\<rparr> # post\<rparr>))"
      using f r(3) m by (simp add: run body)
    with pp r(2) r(3)
    show "\<exists>pre r post. rows t = pre @ r # post \<and> email r = addr \<and> \<not> is_active r
            \<and> handle_newsletter cfg remote_addr current_time now (Some data) (limits, t)
                = (Response (Message ''Subscription reactivated successfully'', 200),
                   (limits', t\<lparr>rows := pre @ r\<lparr>is_active := True\<rparr> # post\<rparr>))"
      by blast
  }
  {
    assume "(\<forall>r \<in> set (rows t). email r \<noteq> addr) \<and> int64 (next_id t)"
    then have absent: "\<forall>r \<in> set (rows t). email r \<noteq> addr" and i: "int64 (next_id t)"
      by simp_all
    let ?new = "\<lparr>subscriber_id = next_id t, email = addr, date_subscribed = now,
                  is_active = True\<rparr>"
    have f: "find (\<lambda>r. email r = addr) (rows t) = None"
      using absent by (simp add: find_absent)
    have "email ?new = addr \<and> is_active ?new
            \<and> subscriber_id ?new \<notin> subscriber_id ` set (rows t)
            \<and> handle_newsletter cfg remote_addr current_time now (Some data) (limits, t)
                = (Response (Message ''Successfully subscribed to newsletter'', 201),
                   (limits', t\<lparr>rows := rows t @ [?new], sequence := subscriber_id ?new\<rparr>))"
      using next_id_fresh[of t] f i by (simp add: run body)
    then show "\<exists>new. email new = addr \<and> is_active new
            \<and> subscriber_id new \<notin> subscriber_id ` set (rows t)
            \<and> handle_newsletter cfg remote_addr current_time now (Some data) (limits, t)
                = (Response (Message ''Successfully subscribed to newsletter'', 201),
                   (limits', t\<lparr>rows := rows t @ [new], sequence := subscriber_id new\<rparr>))"
      by (rule exI)
  }
  {
    fix limits''
    assume room: "(\<exists>r \<in> set (rows t). email r = addr) \<or> int64 (next_id t)"
    assume adm2: "rate_limit cfg ''newsletter'' remote_addr current_time2 limits'
                    = (Call_handler, limits'')"
    have "handle_newsletter cfg remote_addr current_time2 now2 (Some data)
            (limits', snd (handle_newsletter_body now (Some data) t))
          = (Response (Message ''Email already subscribed'', 200),
             (limits'', snd (handle_newsletter_body now (Some data) t)))"
      by (simp add: handle_newsletter_admitted[OF adm2] handle_newsletter_body_again[OF e v room])
    then show "handle_newsletter cfg remote_addr current_time2 now2 (Some data)
                    (snd (handle_newsletter cfg remote_addr current_time now (Some data) (limits, t)))
                  = (Response (Message ''Email already subscribed'', 200),
                     (limits'',
                      snd (snd (handle_newsletter cfg remote_addr current_time now (Some data)
                                  (limits, t)))))"
      by (simp add: run)
  }
next
  assume "rate_limit cfg ''newsletter'' remote_addr current_time limits = (Respond resp, limits')"
  then show "handle_newsletter cfg remote_addr current_time now (Some data) (limits, t)
              = (Response resp, (limits', t))"
    by (rule handle_newsletter_rejected)
qed

theorem newsletter_subscribe_cases_witness:
  "handle_newsletter \<lparr>ADMIN_USERNAME = ''admin'', ADMIN_PASSWORD = ''admin123'', RATE_LIMIT_ENABLED = True, RATE_LIMIT_REQUESTS = 100, RATE_LIMIT_PERIOD = 3600\<rparr>
      (Some ''10.0.0.1'') 63900000000000000 ''2025-01-01 00:00:00'' (Some [''email'' \<mapsto> JScalar (PStr ''ann@example.org'')])
      ([], \<lparr>rows = [\<lparr>subscriber_id = 1, email = ''ann@example.org'', date_subscribed = ''2024-12-01 09:00:00'', is_active = True\<rparr>], sequence = 1\<rparr>)
     = (Response (Message ''Email already subscribed'', 200),
        ([\<lparr>ip_address = ''10.0.0.1'', endpoint = ''newsletter'', timestamp = 63900000000000000\<rparr>],
         \<lparr>rows = [\<lparr>subscriber_id = 1, email = ''ann@example.org'', date_subscribed = ''2024-12-01 09:00:00'', is_active = True\<rparr>], sequence = 1\<rparr>))
   \<and> (\<exists>pre r post.
         rows \<lparr>rows = [\<lparr>subscriber_id = 1, email = ''ann@example.org'', date_subscribed = ''2024-12-01 09:00:00'', is_active = False\<rparr>], sequence = 1\<rparr> = pre @ r # post
         \<and> email r = ''ann@example.org'' \<and> \<not> is_active r
         \<and> handle_newsletter \<lparr>ADMIN_USERNAME = ''admin'', ADMIN_PASSWORD = ''admin123'', RATE_LIMIT_ENABLED = True, RATE_LIMIT_REQUESTS = 100, RATE_LIMIT_PERIOD = 3600\<rparr>
              (Some ''10.0.0.1'') 63900000000000000 ''2025-01-01 00:00:00'' (Some [''email'' \<mapsto> JScalar (PStr ''ann@example.org'')])
              ([], \<lparr>rows = [\<lparr>subscriber_id = 1, email = ''ann@example.org'', date_subscribed = ''2024-12-01 09:00:00'', is_active = False\<rparr>], sequence = 1\<rparr>)
             = (Response (Message ''Subscription reactivated successfully'', 200),
                ([\<lparr>ip_address = ''10.0.0.1'', endpoint = ''newsletter'', timestamp = 63900000000000000\<rparr>],
                 \<lparr>rows = [\<lparr>subscriber_id = 1, email = ''ann@example.org'', date_subscribed = ''2024-12-01 09:00:00'', is_active = False\<rparr>], sequence = 1\<rparr>
                   \<lparr>rows := pre @ r\<lparr>is_active := True\<rparr> # post\<rparr>)))
   \<and> (\<exists>new. email new = ''ann@example.org'' \<and> is_active new
         \<and> handle_newsletter \<lparr>ADMIN_USERNAME = ''admin'', ADMIN_PASSWORD = ''admin123'', RATE_LIMIT_ENABLED = True, RATE_LIMIT_REQUESTS = 100, RATE_LIMIT_PERIOD = 3600\<rparr>
              (Some ''10.0.0.1'') 63900000000000000 ''2025-01-01 00:00:00'' (Some [''email'' \<mapsto> JScalar (PStr ''ann@example.org'')])
              ([], \<lparr>rows = [], sequence = 0\<rparr>)
             = (Response (Message ''Successfully subscribed to newsletter'', 201),
                ([\<lparr>ip_address = ''10.0.0.1'', endpoint = ''newsletter'', timestamp = 63900000000000000\<rparr>],
                 \<lparr>rows = [], sequence = 0\<rparr>\<lparr>rows := [new], sequence := subscriber_id new\<rparr>)))
   \<and> handle_newsletter \<lparr>ADMIN_USERNAME = ''admin'', ADMIN_PASSWORD = ''admin123'', RATE_LIMIT_ENABLED = True, RATE_LIMIT_REQUESTS = 100, RATE_LIMIT_PERIOD = 3600\<rparr>
        (Some ''10.0.0.1'') 63900000001000000 ''2025-01-01 00:00:00'' (Some [''email'' \<mapsto> JScalar (PStr ''ann@example.org'')])
        (snd (handle_newsletter \<lparr>ADMIN_USERNAME = ''admin'', ADMIN_PASSWORD = ''admin123'', RATE_LIMIT_ENABLED = True, RATE_LIMIT_REQUESTS = 100, RATE_LIMIT_PERIOD = 3600\<rparr>
                (Some ''10.0.0.1'') 63900000000000000 ''2025-01-01 00:00:00'' (Some [''email'' \<mapsto> JScalar (PStr ''ann@example.org'')])
                ([], \<lparr>rows = [], sequence = 0\<rparr>)))
       = (Response (Message ''Email already subscribed'', 200),
          ([\<lparr>ip_address = ''10.0.0.1'', endpoint = ''newsletter'', timestamp = 63900000000000000\<rparr>,
            \<lparr>ip_address = ''10.0.0.1'', endpoint = ''newsletter'', timestamp = 63900000001000000\<rparr>],
           snd (snd (handle_newsletter \<lparr>ADMIN_USERNAME = ''admin'', ADMIN_PASSWORD = ''admin123'', RATE_LIMIT_ENABLED = True, RATE_LIMIT_REQUESTS = 100, RATE_LIMIT_PERIOD = 3600\<rparr>
                       (Some ''10.0.0.1'') 63900000000000000 ''2025-01-01 00:00:00'' (Some [''email'' \<mapsto> JScalar (PStr ''ann@example.org'')])
                       ([], \<lparr>rows = [], sequence = 0\<rparr>)))))
   \<and> handle_newsletter \<lparr>ADMIN_USERNAME = ''admin'', ADMIN_PASSWORD = ''admin123'', RATE_LIMIT_ENABLED = True, RATE_LIMIT_REQUESTS = 1, RATE_LIMIT_PERIOD = 3600\<rparr>
        (Some ''10.0.0.1'') 63900000001000000 ''2025-01-01 00:00:00'' (Some [''email'' \<mapsto> JScalar (PStr ''ann@example.org'')])
        ([\<lparr>ip_address = ''10.0.0.1'', endpoint = ''newsletter'', timestamp = 63900000000000000\<rparr>],
         \<lparr>rows = [\<lparr>subscriber_id = 1, email = ''ann@example.org'', date_subscribed = ''2024-12-01 09:00:00'', is_active = True\<rparr>], sequence = 1\<rparr>)
       = (Response (Error ''Rate limit exceeded. Please try again later.'', 429),
          ([\<lparr>ip_address = ''10.0.0.1'', endpoint = ''newsletter'', timestamp = 63900000000000000\<rparr>],
           \<lparr>rows = [\<lparr>subscriber_id = 1, email = ''ann@example.org'', date_subscribed = ''2024-12-01 09:00:00'', is_active = True\<rparr>], sequence = 1\<rparr>))"
proof -
  define data :: jsonbody where "data = [''email'' \<mapsto> JScalar (PStr ''ann@example.org'')]"
  define cfg where "cfg = \<lparr>ADMIN_USERNAME = ''admin'', ADMIN_PASSWORD = ''admin123'', RATE_LIMIT_ENABLED = True, RATE_LIMIT_REQUESTS = 100, RATE_LIMIT_PERIOD = 3600\<rparr>"
  define cfg1 where "cfg1 = \<lparr>ADMIN_USERNAME = ''admin'', ADMIN_PASSWORD = ''admin123'', RATE_LIMIT_ENABLED = True, RATE_LIMIT_REQUESTS = 1, RATE_LIMIT_PERIOD = 3600\<rparr>"
  define r1 where "r1 = \<lparr>ip_address = ''10.0.0.1'', endpoint = ''newsletter'', timestamp = 63900000000000000\<rparr>"
  define r2 where "r2 = \<lparr>ip_address = ''10.0.0.1'', endpoint = ''newsletter'', timestamp = 63900000001000000\<rparr>"
  define tA where "tA = \<lparr>rows = [\<lparr>subscriber_id = 1, email = ''ann@example.org'', date_subscribed = ''2024-12-01 09:00:00'', is_active = True\<rparr>], sequence = 1\<rparr>"
  define tB where "tB = \<lparr>rows = [\<lparr>subscriber_id = 1, email = ''ann@example.org'', date_subscribed = ''2024-12-01 09:00:00'', is_active = False\<rparr>], sequence = 1\<rparr>"
  define tC where "tC = \<lparr>rows = [], sequence = 0\<rparr>"
  have e: "json_get data ''email'' = JScalar (PStr ''ann@example.org'')"
    by (simp add: data_def json_get_def)
  have v: "validate_email ''ann@example.org''"
    by code_simp
  have dA: "distinct (map email (rows tA))" by (simp add: tA_def)
  have dB: "distinct (map email (rows tB))" by (simp add: tB_def)
  have dC: "distinct (map email (rows tC))" by (simp add: tC_def)
  have hA: "\<exists>r \<in> set (rows tA). email r = ''ann@example.org'' \<and> is_active r"
    by (simp add: tA_def)
  have hB: "\<exists>r \<in> set (rows tB). email r = ''ann@example.org'' \<and> \<not> is_active r"
    by (simp add: tB_def)
  have hC: "(\<forall>r \<in> set (rows tC). email r \<noteq> ''ann@example.org'') \<and> int64 (next_id tC)"
    by (simp add: tC_def next_id_def int64_def)
  have rC: "rows tC = []" by (simp add: tC_def)
  have adm: "rate_limit cfg ''newsletter'' (Some ''10.0.0.1'') 63900000000000000 [] = (Call_handler, [r1])"
    by (simp add: cfg_def r1_def rate_limit_def time_window_def timedelta_seconds_def
          datetime_max_def count_recent_def clean_old_def)
  have adm2: "rate_limit cfg ''newsletter'' (Some ''10.0.0.1'') 63900000001000000 [r1] = (Call_handler, [r1, r2])"
    by (simp add: cfg_def r1_def r2_def rate_limit_def time_window_def timedelta_seconds_def
          datetime_max_def count_recent_def clean_old_def)
  have rej: "rate_limit cfg1 ''newsletter'' (Some ''10.0.0.1'') 63900000001000000 [r1]
               = (Respond (Error ''Rate limit exceeded. Please try again later.'', 429), [r1])"
    by (simp add: cfg1_def r1_def rate_limit_def time_window_def timedelta_seconds_def
          datetime_max_def count_recent_def clean_old_def)
  note A = newsletter_subscribe_cases[OF e v dA, where cfg = cfg and remote_addr = "(Some ''10.0.0.1'')"
      and current_time = 63900000000000000 and limits = "[]" and limits' = "[r1]" and now = "''2025-01-01 00:00:00''"
      and ?current_time2.0 = 63900000001000000 and ?now2.0 = "''2025-01-01 00:00:00''"]
  note B = newsletter_subscribe_cases[OF e v dB, where cfg = cfg and remote_addr = "(Some ''10.0.0.1'')"
      and current_time = 63900000000000000 and limits = "[]" and limits' = "[r1]" and now = "''2025-01-01 00:00:00''"
      and ?current_time2.0 = 63900000001000000 and ?now2.0 = "''2025-01-01 00:00:00''"]
  note C = newsletter_subscribe_cases[OF e v dC, where cfg = cfg and remote_addr = "(Some ''10.0.0.1'')"
      and current_time = 63900000000000000 and limits = "[]" and limits' = "[r1]" and now = "''2025-01-01 00:00:00''"
      and ?current_time2.0 = 63900000001000000 and ?now2.0 = "''2025-01-01 00:00:00''"]
  note R = newsletter_subscribe_cases[OF e v dA, where cfg = cfg1 and remote_addr = "(Some ''10.0.0.1'')"
      and current_time = 63900000001000000 and limits = "[r1]" and limits' = "[r1]" and now = "''2025-01-01 00:00:00''"
      and resp = "(Error ''Rate limit exceeded. Please try again later.'', 429)"]
  have 1: "handle_newsletter cfg (Some ''10.0.0.1'') 63900000000000000 ''2025-01-01 00:00:00'' (Some data) ([], tA)
             = (Response (Message ''Email already subscribed'', 200), ([r1], tA))"
    using A adm hA by blast
  have 2: "\<exists>pre r post. rows tB = pre @ r # post
             \<and> email r = ''ann@example.org'' \<and> \<not> is_active r
             \<and> handle_newsletter cfg (Some ''10.0.0.1'') 63900000000000000 ''2025-01-01 00:00:00'' (Some data) ([], tB)
                 = (Response (Message ''Subscription reactivated successfully'', 200),
                    ([r1], tB\<lparr>rows := pre @ r\<lparr>is_active := True\<rparr> # post\<rparr>))"
    using B adm hB by blast
  have "\<exists>new. email new = ''ann@example.org'' \<and> is_active new
          \<and> subscriber_id new \<notin> subscriber_id ` set (rows tC)
          \<and> handle_newsletter cfg (Some ''10.0.0.1'') 63900000000000000 ''2025-01-01 00:00:00'' (Some data) ([], tC)
              = (Response (Message ''Successfully subscribed to newsletter'', 201),
                 ([r1], tC\<lparr>rows := rows tC @ [new], sequence := subscriber_id new\<rparr>))"
    using C adm hC by blast
  then have 3: "\<exists>new. email new = ''ann@example.org'' \<and> is_active new
          \<and> handle_newsletter cfg (Some ''10.0.0.1'') 63900000000000000 ''2025-01-01 00:00:00'' (Some data) ([], tC)
              = (Response (Message ''Successfully subscribed to newsletter'', 201),
                 ([r1], tC\<lparr>rows := [new], sequence := subscriber_id new\<rparr>))"
    unfolding rC by auto
  have 4: "handle_newsletter cfg (Some ''10.0.0.1'') 63900000001000000 ''2025-01-01 00:00:00'' (Some data)
             (snd (handle_newsletter cfg (Some ''10.0.0.1'') 63900000000000000 ''2025-01-01 00:00:00'' (Some data) ([], tC)))
           = (Response (Message ''Email already subscribed'', 200),
              ([r1, r2],
               snd (snd (handle_newsletter cfg (Some ''10.0.0.1'') 63900000000000000 ''2025-01-01 00:00:00'' (Some data) ([], tC)))))"
    using C adm adm2 hC by blast
  have 5: "handle_newsletter cfg1 (Some ''10.0.0.1'') 63900000001000000 ''2025-01-01 00:00:00'' (Some data) ([r1], tA)
             = (Response (Error ''Rate limit exceeded. Please try again later.'', 429), ([r1], tA))"
    using R rej by blast
  from 1 2 3 4 5 show ?thesis
    unfolding data_def cfg_def cfg1_def r1_def r2_def tA_def tB_def tC_def by blast
qed

text \<open>
  With a limit of one request per hour, subscribing an active email twice within a second:
  the first request is answered 200 ``already subscribed'', the second 429.
\<close>

theorem newsletter_second_subscribe_limited:
  "handle_newsletter \<lparr>ADMIN_USERNAME = ''admin'', ADMIN_PASSWORD = ''admin123'', RATE_LIMIT_ENABLED = True, RATE_LIMIT_REQUESTS = 1, RATE_LIMIT_PERIOD = 3600\<rparr>
      (Some ''10.0.0.1'') 63900000000000000 ''2025-01-01 00:00:00'' (Some [''email'' \<mapsto> JScalar (PStr ''ann@example.org'')])
      ([], \<lparr>rows = [\<lparr>subscriber_id = 1, email = ''ann@example.org'', date_subscribed = ''2024-12-01 09:00:00'', is_active = True\<rparr>], sequence = 1\<rparr>)
     = (Response (Message ''Email already subscribed'', 200),
        ([\<lparr>ip_address = ''10.0.0.1'', endpoint = ''newsletter'', timestamp = 63900000000000000\<rparr>],
         \<lparr>rows = [\<lparr>subscriber_id = 1, email = ''ann@example.org'', date_subscribed = ''2024-12-01 09:00:00'', is_active = True\<rparr>], sequence = 1\<rparr>))
   \<and> handle_newsletter \<lparr>ADMIN_USERNAME = ''admin'', ADMIN_PASSWORD = ''admin123'', RATE_LIMIT_ENABLED = True, RATE_LIMIT_REQUESTS = 1, RATE_LIMIT_PERIOD = 3600\<rparr>
      (Some ''10.0.0.1'') 63900000001000000 ''2025-01-01 00:00:00'' (Some [''email'' \<mapsto> JScalar (PStr ''ann@example.org'')])
      ([\<lparr>ip_address = ''10.0.0.1'', endpoint = ''newsletter'', timestamp = 63900000000000000\<rparr>],
       \<lparr>rows = [\<lparr>subscriber_id = 1, email = ''ann@example.org'', date_subscribed = ''2024-12-01 09:00:00'', is_active = True\<rparr>], sequence = 1\<rparr>)
     = (Response (Error ''Rate limit exceeded. Please try again later.'', 429),
        ([\<lparr>ip_address = ''10.0.0.1'', endpoint = ''newsletter'', timestamp = 63900000000000000\<rparr>],
         \<lparr>rows = [\<lparr>subscriber_id = 1, email = ''ann@example.org'', date_subscribed = ''2024-12-01 09:00:00'', is_active = True\<rparr>], sequence = 1\<rparr>))"
proof -
  have v: "validate_email ''ann@example.org''" by code_simp
  show ?thesis
    by (simp add: handle_newsletter_def handle_newsletter_body_def rate_limit_def
          time_window_def timedelta_seconds_def datetime_max_def count_recent_def clean_old_def
          json_get_def v)
qed

end
